theory Spec2Isabelle
  imports Complex_Main
begin

section \<open>Common values\<close>

text \<open>
  The billing repository consists of four services (tax, discount, invoice, payment) that
  share one event publisher design. The embedding below follows the Python sources
  function by function.

  Conventions of the embedding:
  \<^item> A \<open>Decimal\<close> amount is an exact rational and \<open>Decimal\<close> arithmetic is exact
    (no result needs more than the 28 significant digits of the default context).
  \<^item> \<open>float(...)\<close> is \<open>float64\<close> below: the binary64 value nearest to the amount, ties
    to even. A \<open>Float\<close> column holds the value written to it; a percentage or rate that
    the source reads back through \<open>Decimal(str(...))\<close> is held as that decimal value.
  \<^item> \<open>datetime.utcnow()\<close> is a natural number taken from the environment of the
    call; all readings of the clock inside one service call give the same instant.
  \<^item> \<open>uuid.uuid4()\<close> values are taken from the environment of the call.
  \<^item> A database table is a list of rows in insertion order; \<open>.first()\<close> is the first
    row that satisfies the filter. Where \<open>create_invoice\<close>, \<open>create_payment\<close> and
    \<open>apply_discount\<close> insert a row, the INSERT is checked against the schema: NOT NULL
    columns that the arguments can leave empty, unique columns and, for a database that
    enforces them (PostgreSQL does, SQLite does not), the lengths of \<open>String(n)\<close> columns.
    A rejected INSERT raises and stores nothing.
  \<^item> Every \<open>raise\<close> of the source is an \<open>Inl\<close> result.
\<close>

type_synonym timestamp = nat

datatype json =
    JNull
  | JBool bool
  | JNum rat
  | JStr string
  | JTime timestamp
  | JArr "json list"
  | JObj "(string \<times> json) list"

text \<open>Python truthiness of an optional string: \<open>None\<close> and \<open>""\<close> are false.\<close>

fun truthy :: "string option \<Rightarrow> bool" where
  "truthy None = False"
| "truthy (Some s) = (s \<noteq> [])"

fun opt_str :: "string option \<Rightarrow> json" where
  "opt_str None = JNull"
| "opt_str (Some s) = JStr s"

fun opt_time :: "timestamp option \<Rightarrow> json" where
  "opt_time None = JNull"
| "opt_time (Some t) = JTime t"

text \<open>Decimal rendering of a natural number, as \<open>str(int)\<close> gives it.\<close>

fun string_of_nat :: "nat \<Rightarrow> string" where
  "string_of_nat n =
     (if n < 10 then [char_of (48 + n)]
      else string_of_nat (n div 10) @ [char_of (48 + n mod 10)])"

declare string_of_nat.simps [simp del]

text \<open>
  \<open>float(d)\<close> for a \<open>Decimal\<close> \<open>d\<close>: the correctly rounded binary64 value. The amount
  is scaled to a 53-bit integer significand, which is rounded to the nearest integer, a
  tie going to the even one. \<open>binary_exponent n x 0\<close> is the exponent \<open>e\<close> with
  \<open>2 ^ e \<le> x < 2 ^ (e + 1)\<close>, found in at most \<open>n\<close> steps; below \<open>2 ^ (-1022)\<close> the
  spacing of the subnormal numbers is used. A magnitude of \<open>2 ^ 1024\<close> or more, for which
  Python gives an infinity, is outside the model.
\<close>

definition round_half_even :: "rat \<Rightarrow> int" where
  "round_half_even x =
     (let f = \<lfloor>x\<rfloor>; d = x - of_int f
      in if d < 1 / 2 then f
         else if 1 / 2 < d then f + 1
         else if even f then f else f + 1)"

fun binary_exponent :: "nat \<Rightarrow> rat \<Rightarrow> int \<Rightarrow> int" where
  "binary_exponent 0 x e = e"
| "binary_exponent (Suc n) x e =
     (if 2 \<le> x then binary_exponent n (x / 2) (e + 1)
      else if x < 1 then binary_exponent n (x * 2) (e - 1)
      else e)"

definition float64 :: "rat \<Rightarrow> rat" where
  "float64 x =
     (if x = 0 then 0
      else (let e = max (binary_exponent 2200 \<bar>x\<bar> 0) (- 1022);
                u = power_int 2 (e - 52)
            in of_int (round_half_even (x / u)) * u))"

datatype error =
    HTTPException nat string
  | ValidationError string
  | AttributeError string
  | OSError string
  | IntegrityError string
  | DataError string

section \<open>Event publisher (app/core/event_publisher.py, shared/event_utils.py)\<close>

record envelope =
  event_id :: string
  event_type :: json
  env_timestamp :: timestamp
  env_correlation_id :: string
  source_service :: "string option"
  payload :: json

datatype delivery_mode = NOT_PERSISTENT | PERSISTENT

record message =
  body :: envelope
  content_type :: string
  msg_delivery_mode :: delivery_mode
  msg_correlation_id :: "string option"
  message_id :: string

text \<open>
  The publisher object: its \<open>connected\<close> flag, the number of connection attempts made
  against the broker (\<open>aio_pika.connect_robust\<close>), and the messages the exchange has
  accepted, each with its routing key.
\<close>

record publisher =
  connected :: bool
  connect_calls :: nat
  sent :: "(string \<times> message) list"

text \<open>
  What the outside world answers during one call: the clock, two fresh uuids (the first
  for the event id, the second for a generated correlation id), whether a connection
  attempt succeeds, and whether the body of the \<open>try\<close> block of \<open>publish_event\<close>
  (\<open>get_exchange\<close>, \<open>json.dumps\<close>, \<open>exchange.publish\<close>) runs without raising.
\<close>

record broker_env =
  now :: timestamp
  uuid1 :: string
  uuid2 :: string
  connect_ok :: bool
  publish_ok :: bool

datatype broker_exn = AMQPConnectionError | PublishFailure

definition broker_connect :: "broker_env \<Rightarrow> broker_exn + unit" where
  "broker_connect env = (if connect_ok env then Inr () else Inl AMQPConnectionError)"

definition exchange_publish ::
  "broker_env \<Rightarrow> string \<Rightarrow> message \<Rightarrow> publisher \<Rightarrow> broker_exn + publisher" where
  "exchange_publish env routing_key msg pub =
     (if publish_ok env then Inr (pub\<lparr>sent := sent pub @ [(routing_key, msg)]\<rparr>)
      else Inl PublishFailure)"

text \<open>\<open>connect\<close>: returns at once when connected; any exception is caught and logged.\<close>

definition connect :: "broker_env \<Rightarrow> publisher \<Rightarrow> publisher" where
  "connect env pub =
     (if connected pub then pub
      else (case broker_connect env of
              Inr _ \<Rightarrow> pub\<lparr>connected := True, connect_calls := connect_calls pub + 1\<rparr>
            | Inl _ \<Rightarrow> pub\<lparr>connected := False, connect_calls := connect_calls pub + 1\<rparr>))"

text \<open>\<open>dict.get(key, default)\<close> on the \<open>event_data\<close> dictionary.\<close>

definition dict_get :: "(string \<times> json) list \<Rightarrow> string \<Rightarrow> json \<Rightarrow> json" where
  "dict_get d k dflt = (case map_of d k of None \<Rightarrow> dflt | Some v \<Rightarrow> v)"

definition make_event ::
  "string option \<Rightarrow> broker_env \<Rightarrow> (string \<times> json) list \<Rightarrow> string option \<Rightarrow> envelope" where
  "make_event svc env event_data correlation_id =
     \<lparr> event_id = uuid1 env,
       event_type = dict_get event_data ''event_type'' (JStr ''unknown''),
       env_timestamp = now env,
       env_correlation_id = (if truthy correlation_id then the correlation_id else uuid2 env),
       source_service = svc,
       payload = dict_get event_data ''payload'' (JObj []) \<rparr>"

definition make_message :: "envelope \<Rightarrow> string option \<Rightarrow> message" where
  "make_message event correlation_id =
     \<lparr> body = event,
       content_type = ''application/json'',
       msg_delivery_mode = PERSISTENT,
       msg_correlation_id = correlation_id,
       message_id = event_id event \<rparr>"

text \<open>
  \<open>publish_event\<close>. The first argument is the \<open>source_service\<close> field that only
  \<open>BaseEventPublisher\<close> writes into the envelope; otherwise the per-service
  \<open>EventPublisher.publish_event\<close> and \<open>BaseEventPublisher.publish_event\<close> are the same
  code.
\<close>

definition publish_event_core ::
  "string option \<Rightarrow> broker_env \<Rightarrow> string \<Rightarrow> (string \<times> json) list \<Rightarrow> string option \<Rightarrow>
   publisher \<Rightarrow> bool \<times> publisher" where
  "publish_event_core svc env routing_key event_data correlation_id pub =
     (let pub1 = (if \<not> connected pub then connect env pub else pub)
      in if \<not> connected pub1 then (False, pub1)
         else (let event = make_event svc env event_data correlation_id;
                   msg = make_message event correlation_id
               in case exchange_publish env routing_key msg pub1 of
                    Inr pub2 \<Rightarrow> (True, pub2)
                  | Inl _ \<Rightarrow> (False, pub1)))"

definition publish_event ::
  "broker_env \<Rightarrow> string \<Rightarrow> (string \<times> json) list \<Rightarrow> string option \<Rightarrow> publisher \<Rightarrow>
   bool \<times> publisher" where
  "publish_event = publish_event_core None"

definition base_publish_event ::
  "string \<Rightarrow> broker_env \<Rightarrow> string \<Rightarrow> (string \<times> json) list \<Rightarrow> string option \<Rightarrow> publisher \<Rightarrow>
   bool \<times> publisher" where
  "base_publish_event service_name = publish_event_core (Some service_name)"


section \<open>Invoice service\<close>

subsection \<open>Data model (app/models/invoice.py)\<close>

datatype invoice_status = DRAFT | ISSUED | PARTIALLY_PAID | PAID | OVERDUE | CANCELLED

fun status_value :: "invoice_status \<Rightarrow> string" where
  "status_value DRAFT = ''draft''"
| "status_value ISSUED = ''issued''"
| "status_value PARTIALLY_PAID = ''partially_paid''"
| "status_value PAID = ''paid''"
| "status_value OVERDUE = ''overdue''"
| "status_value CANCELLED = ''cancelled''"

record invoice =
  inv_id :: nat
  invoice_number :: string
  inv_user_id :: string
  customer_id :: string
  customer_name :: string
  customer_email :: string
  customer_address :: "string option"
  subtotal :: rat
  tax_amount :: rat
  discount_amount :: rat
  total_amount :: rat
  inv_status :: invoice_status
  inv_notes :: "string option"
  issue_date :: timestamp
  due_date :: "timestamp option"
  paid_date :: "timestamp option"
  inv_created_at :: timestamp
  inv_updated_at :: timestamp

record invoice_item =
  item_invoice_id :: nat
  item_description :: string
  quantity :: rat
  unit_price :: rat
  item_amount :: rat

text \<open>
  The \<open>details\<close> text of a history row is kept structured: the invoice number of a
  creation, the keys changed by an update (the rendering of old and new values is left
  out), the old and the new status of a status change.
\<close>

datatype history_details =
    Created_details string
  | Updated_details "string list"
  | Status_details invoice_status invoice_status

record invoice_history =
  hist_invoice_id :: nat
  hist_user_id :: string
  hist_action :: string
  hist_details :: history_details
  hist_created_at :: timestamp

text \<open>The invoice database together with the service's publisher singleton.\<close>

record invoice_state =
  invoices :: "invoice list"
  items :: "invoice_item list"
  history :: "invoice_history list"
  next_invoice_id :: nat
  inv_publisher :: publisher

text \<open>
  The environment of one invoice-service call: the broker and clock, the decimal digits
  of the uuid that \<open>_generate_invoice_number\<close> draws (\<open>str(uuid.uuid4().int)\<close>), whether
  the database enforces the lengths of \<open>String(n)\<close> columns, the setting
  \<open>PDF_GENERATION_ENABLED\<close> and whether \<open>os.makedirs\<close> on the PDF directory succeeds.
\<close>

record invoice_env =
  broker :: broker_env
  uuid_digits :: string
  db_enforces_lengths :: bool
  pdf_generation_enabled :: bool
  makedirs_ok :: bool

subsection \<open>Repository (app/repositories/invoice_repository.py)\<close>

definition add_history_entry ::
  "timestamp \<Rightarrow> nat \<Rightarrow> string \<Rightarrow> string \<Rightarrow> history_details \<Rightarrow> invoice_state \<Rightarrow> invoice_state" where
  "add_history_entry t invoice_id user_id action details st =
     st\<lparr>history := history st @
        [\<lparr> hist_invoice_id = invoice_id, hist_user_id = user_id, hist_action = action,
           hist_details = details, hist_created_at = t \<rparr>]\<rparr>"

text \<open>\<open>db.commit()\<close> of a loaded, mutated row: the row with that id is replaced.\<close>

definition commit_invoice :: "invoice \<Rightarrow> invoice_state \<Rightarrow> invoice_state" where
  "commit_invoice invoice st =
     st\<lparr>invoices := map (\<lambda>i. if inv_id i = inv_id invoice then invoice else i) (invoices st)\<rparr>"

text \<open>The \<open>String(n)\<close> columns of a row of the \<open>invoices\<close> table.\<close>

definition invoice_row_fits :: "invoice \<Rightarrow> bool" where
  "invoice_row_fits i =
     (length (invoice_number i) \<le> 20 \<and> length (inv_user_id i) \<le> 255 \<and>
      length (customer_id i) \<le> 255 \<and> length (customer_name i) \<le> 255 \<and>
      length (customer_email i) \<le> 255)"

text \<open>
  \<open>InvoiceRepository.create_invoice\<close>. The first argument says whether the database
  enforces string lengths. The INSERT is rejected when a string is too long for its
  column or when the invoice number (a unique column) is already stored.
\<close>

definition repo_create_invoice ::
  "bool \<Rightarrow> timestamp \<Rightarrow> string \<Rightarrow> string \<Rightarrow> string \<Rightarrow> string \<Rightarrow> string \<Rightarrow> string option \<Rightarrow>
   rat \<Rightarrow> rat \<Rightarrow> rat \<Rightarrow> rat \<Rightarrow> string option \<Rightarrow> timestamp option \<Rightarrow> invoice_status \<Rightarrow>
   invoice_state \<Rightarrow> (error + invoice) \<times> invoice_state" where
  "repo_create_invoice enforce t user_id number cust_id cust_name cust_email cust_address
      sub tax disc total_amt nts due status st =
     (let db_invoice =
        \<lparr> inv_id = next_invoice_id st, invoice_number = number, inv_user_id = user_id,
          customer_id = cust_id, customer_name = cust_name, customer_email = cust_email,
          customer_address = cust_address, subtotal = sub, tax_amount = tax,
          discount_amount = disc, total_amount = total_amt, inv_status = status, inv_notes = nts,
          issue_date = t, due_date = due, paid_date = None,
          inv_created_at = t, inv_updated_at = t \<rparr>
      in if enforce \<and> \<not> invoice_row_fits db_invoice
         then (Inl (DataError ''invoices''), st)
         else if number \<in> set (map invoice_number (invoices st))
         then (Inl (IntegrityError ''invoices.invoice_number''), st)
         else (let st1 = st\<lparr>invoices := invoices st @ [db_invoice],
                            next_invoice_id := next_invoice_id st + 1\<rparr>
               in (Inr db_invoice,
                   add_history_entry t (inv_id db_invoice) user_id ''created''
                     (Created_details number) st1)))"

text \<open>
  \<open>InvoiceRepository.add_invoice_item\<close>; the description is a \<open>String(255)\<close> column.
\<close>

definition add_invoice_item ::
  "bool \<Rightarrow> nat \<Rightarrow> string \<Rightarrow> rat \<Rightarrow> rat \<Rightarrow> rat \<Rightarrow> invoice_state \<Rightarrow> error + invoice_state" where
  "add_invoice_item enforce invoice_id descr qty price amt st =
     (if enforce \<and> length descr > 255
      then Inl (DataError ''invoice_items.description'')
      else Inr (st\<lparr>items := items st @
                  [\<lparr> item_invoice_id = invoice_id, item_description = descr, quantity = qty,
                     unit_price = price, item_amount = amt \<rparr>]\<rparr>))"

definition get_invoice_by_id :: "invoice_state \<Rightarrow> nat \<Rightarrow> invoice option" where
  "get_invoice_by_id st invoice_id = find (\<lambda>i. inv_id i = invoice_id) (invoices st)"

text \<open>
  One entry of the \<open>update_data\<close> dictionary of \<open>update_invoice\<close>: a column of the
  invoice with its new value, or a key that is no attribute of the row.
\<close>

datatype invoice_field =
    Set_id nat
  | Set_invoice_number string
  | Set_user_id string
  | Set_customer_id string
  | Set_customer_name string
  | Set_customer_email string
  | Set_customer_address "string option"
  | Set_subtotal rat
  | Set_tax_amount rat
  | Set_discount_amount rat
  | Set_total_amount rat
  | Set_status invoice_status
  | Set_notes "string option"
  | Set_issue_date timestamp
  | Set_due_date "timestamp option"
  | Set_paid_date "timestamp option"
  | Set_created_at timestamp
  | Set_updated_at timestamp
  | Unknown_key string

fun field_key :: "invoice_field \<Rightarrow> string" where
  "field_key (Set_id _) = ''id''"
| "field_key (Set_invoice_number _) = ''invoice_number''"
| "field_key (Set_user_id _) = ''user_id''"
| "field_key (Set_customer_id _) = ''customer_id''"
| "field_key (Set_customer_name _) = ''customer_name''"
| "field_key (Set_customer_email _) = ''customer_email''"
| "field_key (Set_customer_address _) = ''customer_address''"
| "field_key (Set_subtotal _) = ''subtotal''"
| "field_key (Set_tax_amount _) = ''tax_amount''"
| "field_key (Set_discount_amount _) = ''discount_amount''"
| "field_key (Set_total_amount _) = ''total_amount''"
| "field_key (Set_status _) = ''status''"
| "field_key (Set_notes _) = ''notes''"
| "field_key (Set_issue_date _) = ''issue_date''"
| "field_key (Set_due_date _) = ''due_date''"
| "field_key (Set_paid_date _) = ''paid_date''"
| "field_key (Set_created_at _) = ''created_at''"
| "field_key (Set_updated_at _) = ''updated_at''"
| "field_key (Unknown_key k) = k"

text \<open>\<open>hasattr(invoice, key) and getattr(invoice, key) != value\<close>\<close>

fun field_changes :: "invoice \<Rightarrow> invoice_field \<Rightarrow> bool" where
  "field_changes invoice (Set_id v) = (inv_id invoice \<noteq> v)"
| "field_changes invoice (Set_invoice_number v) = (invoice_number invoice \<noteq> v)"
| "field_changes invoice (Set_user_id v) = (inv_user_id invoice \<noteq> v)"
| "field_changes invoice (Set_customer_id v) = (customer_id invoice \<noteq> v)"
| "field_changes invoice (Set_customer_name v) = (customer_name invoice \<noteq> v)"
| "field_changes invoice (Set_customer_email v) = (customer_email invoice \<noteq> v)"
| "field_changes invoice (Set_customer_address v) = (customer_address invoice \<noteq> v)"
| "field_changes invoice (Set_subtotal v) = (subtotal invoice \<noteq> v)"
| "field_changes invoice (Set_tax_amount v) = (tax_amount invoice \<noteq> v)"
| "field_changes invoice (Set_discount_amount v) = (discount_amount invoice \<noteq> v)"
| "field_changes invoice (Set_total_amount v) = (total_amount invoice \<noteq> v)"
| "field_changes invoice (Set_status v) = (inv_status invoice \<noteq> v)"
| "field_changes invoice (Set_notes v) = (inv_notes invoice \<noteq> v)"
| "field_changes invoice (Set_issue_date v) = (issue_date invoice \<noteq> v)"
| "field_changes invoice (Set_due_date v) = (due_date invoice \<noteq> v)"
| "field_changes invoice (Set_paid_date v) = (paid_date invoice \<noteq> v)"
| "field_changes invoice (Set_created_at v) = (inv_created_at invoice \<noteq> v)"
| "field_changes invoice (Set_updated_at v) = (inv_updated_at invoice \<noteq> v)"
| "field_changes invoice (Unknown_key k) = False"

text \<open>\<open>setattr(invoice, key, value)\<close>\<close>

fun set_field :: "invoice \<Rightarrow> invoice_field \<Rightarrow> invoice" where
  "set_field invoice (Set_id v) = invoice\<lparr>inv_id := v\<rparr>"
| "set_field invoice (Set_invoice_number v) = invoice\<lparr>invoice_number := v\<rparr>"
| "set_field invoice (Set_user_id v) = invoice\<lparr>inv_user_id := v\<rparr>"
| "set_field invoice (Set_customer_id v) = invoice\<lparr>customer_id := v\<rparr>"
| "set_field invoice (Set_customer_name v) = invoice\<lparr>customer_name := v\<rparr>"
| "set_field invoice (Set_customer_email v) = invoice\<lparr>customer_email := v\<rparr>"
| "set_field invoice (Set_customer_address v) = invoice\<lparr>customer_address := v\<rparr>"
| "set_field invoice (Set_subtotal v) = invoice\<lparr>subtotal := v\<rparr>"
| "set_field invoice (Set_tax_amount v) = invoice\<lparr>tax_amount := v\<rparr>"
| "set_field invoice (Set_discount_amount v) = invoice\<lparr>discount_amount := v\<rparr>"
| "set_field invoice (Set_total_amount v) = invoice\<lparr>total_amount := v\<rparr>"
| "set_field invoice (Set_status v) = invoice\<lparr>inv_status := v\<rparr>"
| "set_field invoice (Set_notes v) = invoice\<lparr>inv_notes := v\<rparr>"
| "set_field invoice (Set_issue_date v) = invoice\<lparr>issue_date := v\<rparr>"
| "set_field invoice (Set_due_date v) = invoice\<lparr>due_date := v\<rparr>"
| "set_field invoice (Set_paid_date v) = invoice\<lparr>paid_date := v\<rparr>"
| "set_field invoice (Set_created_at v) = invoice\<lparr>inv_created_at := v\<rparr>"
| "set_field invoice (Set_updated_at v) = invoice\<lparr>inv_updated_at := v\<rparr>"
| "set_field invoice (Unknown_key k) = invoice"

text \<open>The loop over \<open>update_data.items()\<close>, threading the row and the \<open>details\<close> list.\<close>

fun apply_update_data :: "invoice_field list \<Rightarrow> invoice \<Rightarrow> string list \<Rightarrow> invoice \<times> string list" where
  "apply_update_data [] invoice details = (invoice, details)"
| "apply_update_data (f # fs) invoice details =
     (if field_changes invoice f
      then apply_update_data fs (set_field invoice f) (details @ [field_key f])
      else apply_update_data fs invoice details)"

text \<open>
  \<open>InvoiceRepository.update_invoice\<close>. The row is committed under the id it was loaded
  with.
\<close>

definition repo_update_invoice ::
  "timestamp \<Rightarrow> invoice \<Rightarrow> string \<Rightarrow> invoice_field list \<Rightarrow> invoice_state \<Rightarrow>
   invoice \<times> invoice_state" where
  "repo_update_invoice t invoice user_id update_data st =
     (case apply_update_data update_data invoice [] of
        (inv1, details) \<Rightarrow>
          if details \<noteq> []
          then (let inv2 = inv1\<lparr>inv_updated_at := t\<rparr>;
                    st1 = st\<lparr>invoices :=
                             map (\<lambda>i. if inv_id i = inv_id invoice then inv2 else i) (invoices st)\<rparr>
                in (inv2, add_history_entry t (inv_id inv2) user_id ''updated''
                            (Updated_details details) st1))
          else (inv1, st))"

text \<open>\<open>InvoiceRepository.update_invoice_status\<close>\<close>

definition update_invoice_status ::
  "timestamp \<Rightarrow> invoice \<Rightarrow> string \<Rightarrow> invoice_status \<Rightarrow> invoice_state \<Rightarrow>
   invoice \<times> invoice_state" where
  "update_invoice_status t invoice user_id status st =
     (if inv_status invoice \<noteq> status
      then (let old_status = inv_status invoice;
                inv1 = invoice\<lparr>inv_status := status\<rparr>;
                inv2 = (if status = PAID \<and> paid_date inv1 = None
                        then inv1\<lparr>paid_date := Some t\<rparr> else inv1);
                inv3 = inv2\<lparr>inv_updated_at := t\<rparr>
            in (inv3, add_history_entry t (inv_id inv3) user_id ''status_change''
                        (Status_details old_status status) (commit_invoice inv3 st)))
      else (invoice, st))"

subsection \<open>Publisher of the invoice service (app/core/event_publisher.py)\<close>

definition publish_invoice_created ::
  "broker_env \<Rightarrow> (string \<times> json) list \<Rightarrow> string option \<Rightarrow> publisher \<Rightarrow> bool \<times> publisher" where
  "publish_invoice_created env invoice_data correlation_id pub =
     publish_event env ''invoice.created''
       [(''event_type'', JStr ''invoice_created''),
        (''payload'', JObj
           [(''invoice_id'', dict_get invoice_data ''id'' JNull),
            (''customer_id'', dict_get invoice_data ''customer_id'' JNull),
            (''amount'', dict_get invoice_data ''amount'' JNull),
            (''tax_amount'', dict_get invoice_data ''tax_amount'' JNull),
            (''discount_amount'', dict_get invoice_data ''discount_amount'' JNull),
            (''total_amount'', dict_get invoice_data ''total_amount'' JNull),
            (''status'', dict_get invoice_data ''status'' JNull),
            (''created_at'', dict_get invoice_data ''created_at'' (JTime (now env))),
            (''due_date'', dict_get invoice_data ''due_date'' JNull),
            (''user_id'', dict_get invoice_data ''user_id'' JNull)])]
       correlation_id pub"

definition publish_invoice_updated ::
  "broker_env \<Rightarrow> (string \<times> json) list \<Rightarrow> string option \<Rightarrow> publisher \<Rightarrow> bool \<times> publisher" where
  "publish_invoice_updated env invoice_data correlation_id pub =
     publish_event env ''invoice.updated''
       [(''event_type'', JStr ''invoice_updated''),
        (''payload'', JObj
           [(''invoice_id'', dict_get invoice_data ''id'' JNull),
            (''customer_id'', dict_get invoice_data ''customer_id'' JNull),
            (''status'', dict_get invoice_data ''status'' JNull),
            (''updated_at'', JTime (now env)),
            (''user_id'', dict_get invoice_data ''user_id'' JNull)])]
       correlation_id pub"

subsection \<open>Service (app/services/invoice_service.py)\<close>

record item_input =
  in_description :: string
  in_quantity :: rat
  in_unit_price :: rat

text \<open>
  The loop of \<open>create_invoice\<close> over the items; an item that the database rejects ends
  the loop with the error, the rows stored so far staying stored.
\<close>

fun add_items ::
  "bool \<Rightarrow> nat \<Rightarrow> item_input list \<Rightarrow> invoice_state \<Rightarrow> error option \<times> invoice_state" where
  "add_items enforce invoice_id [] st = (None, st)"
| "add_items enforce invoice_id (item # rest) st =
     (let qty = in_quantity item;
          price = in_unit_price item;
          amt = qty * price
      in case add_invoice_item enforce invoice_id (in_description item)
                (float64 qty) (float64 price) (float64 amt) st of
           Inl e \<Rightarrow> (Some e, st)
         | Inr st1 \<Rightarrow> add_items enforce invoice_id rest st1)"

definition invoice_snapshot :: "invoice \<Rightarrow> string \<Rightarrow> (string \<times> json) list" where
  "invoice_snapshot invoice user_id =
     [(''id'', JNum (of_nat (inv_id invoice))),
      (''invoice_number'', JStr (invoice_number invoice)),
      (''customer_id'', JStr (customer_id invoice)),
      (''amount'', JNum (total_amount invoice)),
      (''tax_amount'', JNum (tax_amount invoice)),
      (''discount_amount'', JNum (discount_amount invoice)),
      (''total_amount'', JNum (total_amount invoice)),
      (''status'', JStr (status_value (inv_status invoice))),
      (''created_at'', JTime (inv_created_at invoice)),
      (''due_date'', opt_time (due_date invoice)),
      (''user_id'', JStr user_id)]"

text \<open>
  \<open>_generate_invoice_number\<close>: \<open>INV-\<close>, the timestamp, a dash and the first eight
  digits of the uuid.
\<close>

definition generate_invoice_number :: "invoice_env \<Rightarrow> string" where
  "generate_invoice_number env =
     ''INV-'' @ string_of_nat (now (broker env)) @ ''-'' @ take 8 (uuid_digits env)"

text \<open>
  \<open>InvoiceService.create_invoice\<close>. The total is computed on the \<open>Decimal\<close> arguments;
  the row receives \<open>float(subtotal)\<close>, \<open>float(tax_amount)\<close>, \<open>float(discount_amount)\<close>
  and \<open>float(total_amount)\<close>. The event carries the same four conversions, which are
  the values of the stored row.
\<close>

definition create_invoice ::
  "invoice_env \<Rightarrow> string \<Rightarrow> string \<Rightarrow> string \<Rightarrow> string \<Rightarrow> string option \<Rightarrow>
   rat \<Rightarrow> rat \<Rightarrow> rat \<Rightarrow> item_input list \<Rightarrow> string option \<Rightarrow> timestamp option \<Rightarrow>
   invoice_status \<Rightarrow> string option \<Rightarrow> invoice_state \<Rightarrow> (error + invoice) \<times> invoice_state" where
  "create_invoice env user_id cust_id cust_name cust_email cust_address
      sub tax disc item_list nts due status correlation_id st =
     (let number = generate_invoice_number env;
          total_amt = sub + tax - disc
      in case repo_create_invoice (db_enforces_lengths env) (now (broker env)) user_id number
                cust_id cust_name cust_email cust_address
                (float64 sub) (float64 tax) (float64 disc) (float64 total_amt)
                nts due status st of
           (Inl e, st1) \<Rightarrow> (Inl e, st1)
         | (Inr db_invoice, st1) \<Rightarrow>
             (case add_items (db_enforces_lengths env) (inv_id db_invoice) item_list st1 of
                (Some e, st2) \<Rightarrow> (Inl e, st2)
              | (None, st2) \<Rightarrow>
                  (let st3 = (if status \<noteq> DRAFT
                              then st2\<lparr>inv_publisher :=
                                     snd (publish_invoice_created (broker env)
                                            (invoice_snapshot db_invoice user_id) correlation_id
                                            (inv_publisher st2))\<rparr>
                              else st2)
                   in (Inr db_invoice, st3))))"

definition get_invoice :: "invoice_state \<Rightarrow> nat \<Rightarrow> string \<Rightarrow> error + invoice" where
  "get_invoice st invoice_id user_id =
     (case get_invoice_by_id st invoice_id of
        None \<Rightarrow> Inl (HTTPException 404
                   (''Invoice with ID '' @ string_of_nat invoice_id @ '' not found''))
      | Some invoice \<Rightarrow>
          if inv_user_id invoice \<noteq> user_id
          then Inl (HTTPException 403 ''Not authorized to access this invoice'')
          else Inr invoice)"

definition update_invoice ::
  "invoice_env \<Rightarrow> nat \<Rightarrow> string \<Rightarrow> invoice_field list \<Rightarrow> invoice_state \<Rightarrow>
   (error + invoice) \<times> invoice_state" where
  "update_invoice env invoice_id user_id update_data st =
     (case get_invoice st invoice_id user_id of
        Inl e \<Rightarrow> (Inl e, st)
      | Inr invoice \<Rightarrow>
          if inv_status invoice \<noteq> DRAFT
          then (Inl (HTTPException 400 ''Can only update draft invoices''), st)
          else (case repo_update_invoice (now (broker env)) invoice user_id update_data st of
                  (updated_invoice, st1) \<Rightarrow> (Inr updated_invoice, st1)))"

text \<open>
  \<open>issue_invoice\<close>. After the status is committed the event is published and, when PDF
  generation is enabled, the PDF directory is created; a failure of \<open>os.makedirs\<close>
  raises with the status change already stored. The status in the error detail is
  rendered by its value (\<open>draft\<close>, \<open>issued\<close>, ...), as Python up to 3.10 formats a
  member of a \<open>(str, Enum)\<close> class; from Python 3.11 on the f-string gives the member's
  name (\<open>InvoiceStatus.ISSUED\<close>).
\<close>

definition issue_invoice ::
  "invoice_env \<Rightarrow> nat \<Rightarrow> string \<Rightarrow> string option \<Rightarrow> invoice_state \<Rightarrow>
   (error + invoice) \<times> invoice_state" where
  "issue_invoice env invoice_id user_id correlation_id st =
     (case get_invoice st invoice_id user_id of
        Inl e \<Rightarrow> (Inl e, st)
      | Inr invoice \<Rightarrow>
          if inv_status invoice \<noteq> DRAFT
          then (Inl (HTTPException 400
                  (''Can only issue draft invoices. Current status: '' @
                   status_value (inv_status invoice))), st)
          else (case update_invoice_status (now (broker env)) invoice user_id ISSUED st of
                  (updated_invoice, st1) \<Rightarrow>
                    (let st2 = st1\<lparr>inv_publisher :=
                                 snd (publish_invoice_created (broker env)
                                        (invoice_snapshot updated_invoice user_id)
                                        correlation_id (inv_publisher st1))\<rparr>
                     in if pdf_generation_enabled env \<and> \<not> makedirs_ok env
                        then (Inl (OSError ''makedirs''), st2)
                        else (Inr updated_invoice, st2))))"

definition cancel_invoice ::
  "invoice_env \<Rightarrow> nat \<Rightarrow> string \<Rightarrow> string option \<Rightarrow> invoice_state \<Rightarrow>
   (error + invoice) \<times> invoice_state" where
  "cancel_invoice env invoice_id user_id correlation_id st =
     (case get_invoice st invoice_id user_id of
        Inl e \<Rightarrow> (Inl e, st)
      | Inr invoice \<Rightarrow>
          if inv_status invoice = PAID
          then (Inl (HTTPException 400 ''Cannot cancel paid invoices''), st)
          else (case update_invoice_status (now (broker env)) invoice user_id CANCELLED st of
                  (updated_invoice, st1) \<Rightarrow>
                    (Inr updated_invoice,
                     st1\<lparr>inv_publisher :=
                        snd (publish_invoice_updated (broker env)
                               [(''id'', JNum (of_nat (inv_id updated_invoice))),
                                (''invoice_number'', JStr (invoice_number updated_invoice)),
                                (''customer_id'', JStr (customer_id updated_invoice)),
                                (''status'', JStr (status_value (inv_status updated_invoice))),
                                (''user_id'', JStr user_id)]
                               correlation_id (inv_publisher st1))\<rparr>)))"

text \<open>
  \<open>handle_payment_received\<close>: the body of the source only writes a log line; the steps
  that would record the payment and update the invoice are comments.
\<close>

definition handle_payment_received :: "envelope \<Rightarrow> invoice_state \<Rightarrow> invoice_state" where
  "handle_payment_received event st = st"

section \<open>Payment service\<close>

subsection \<open>Data model (app/models/payment.py)\<close>

datatype payment_status = PENDING | PROCESSING | COMPLETED | FAILED | REFUNDED

fun payment_status_value :: "payment_status \<Rightarrow> string" where
  "payment_status_value PENDING = ''pending''"
| "payment_status_value PROCESSING = ''processing''"
| "payment_status_value COMPLETED = ''completed''"
| "payment_status_value FAILED = ''failed''"
| "payment_status_value REFUNDED = ''refunded''"

definition payment_methods :: "string list" where
  "payment_methods =
     [''credit_card'', ''debit_card'', ''bank_transfer'', ''paypal'', ''crypto'', ''other'']"

record payment =
  pay_id :: nat
  pay_user_id :: string
  pay_invoice_id :: nat
  pay_invoice_number :: string
  pay_amount :: rat
  currency :: string
  payment_method :: string
  payment_method_details :: "json option"
  transaction_reference :: "string option"
  external_reference :: "string option"
  pay_status :: payment_status
  status_message :: "string option"
  payment_date :: "timestamp option"
  pay_created_at :: timestamp
  pay_updated_at :: timestamp

text \<open>
  The dictionary a gateway returns: \<open>success\<close>, \<open>error_code\<close>, \<open>error_message\<close> and
  \<open>transaction_id\<close> (the \<open>status\<close> and \<open>details\<close> entries of a success, which the
  service never reads, are left out).
\<close>

record gateway_response =
  gw_success :: bool
  gw_error_code :: "string option"
  gw_error_message :: "string option"
  gw_transaction_id :: "string option"

record payment_attempt =
  att_payment_id :: nat
  att_gateway_request :: json
  att_gateway_response :: gateway_response
  att_success :: nat
  att_error_message :: "string option"
  att_correlation_id :: "string option"
  att_created_at :: timestamp

record payment_state =
  payments :: "payment list"
  attempts :: "payment_attempt list"
  next_payment_id :: nat
  pay_publisher :: publisher

text \<open>
  What the HTTP call of the real gateway yields: an exception raised inside the \<open>try\<close>
  block (with its \<open>str(e)\<close>), or a response with its status code and the entries
  \<open>error.code\<close>, \<open>error.message\<close> and \<open>id\<close> of its JSON body, each possibly missing.
\<close>

datatype http_outcome =
    Http_raised string
  | Http_response nat "string option" "string option" "string option"

text \<open>
  The environment of one payment-service call: the broker and clock, the setting
  \<open>USE_MOCK_PAYMENT_GATEWAY\<close>, the outcome of the HTTP call and whether the database
  enforces the lengths of \<open>String(n)\<close> columns.
\<close>

record payment_env =
  pay_broker :: broker_env
  use_mock_payment_gateway :: bool
  http :: http_outcome
  pay_db_enforces_lengths :: bool

subsection \<open>Gateways (app/services/payment_service.py)\<close>

definition ends_with :: "string \<Rightarrow> string \<Rightarrow> bool" where
  "ends_with s sfx = (length sfx \<le> length s \<and> drop (length s - length sfx) s = sfx)"

text \<open>
  \<open>MockPaymentGateway.process_payment\<close>. \<open>payment_details.get("card_number", "")\<close> is
  used as a string: any other value has no \<open>endswith\<close> and the call raises. The
  transaction id of a success carries the current time, rendered here as a natural
  number.
\<close>

definition mock_process_payment ::
  "timestamp \<Rightarrow> (string \<times> json) list \<Rightarrow> error + gateway_response" where
  "mock_process_payment t payment_details =
     (case dict_get payment_details ''card_number'' (JStr []) of
        JStr card_number \<Rightarrow>
          if ends_with card_number ''0000''
          then Inr \<lparr> gw_success = False, gw_error_code = Some ''card_declined'',
                     gw_error_message = Some ''Card was declined'',
                     gw_transaction_id = None \<rparr>
          else Inr \<lparr> gw_success = True, gw_error_code = None, gw_error_message = None,
                     gw_transaction_id = Some (''mock-txn-'' @ string_of_nat t) \<rparr>
      | _ \<Rightarrow> Inl (AttributeError ''endswith''))"

text \<open>\<open>PaymentGateway.process_payment\<close>: every exception is turned into a failure.\<close>

definition real_process_payment :: "http_outcome \<Rightarrow> gateway_response" where
  "real_process_payment outcome =
     (case outcome of
        Http_raised msg \<Rightarrow>
          \<lparr> gw_success = False, gw_error_code = Some ''gateway_error'',
            gw_error_message = Some msg, gw_transaction_id = None \<rparr>
      | Http_response status_code err_code err_message txn \<Rightarrow>
          if status_code \<ge> 400
          then \<lparr> gw_success = False, gw_error_code = err_code,
                 gw_error_message = err_message, gw_transaction_id = None \<rparr>
          else \<lparr> gw_success = True, gw_error_code = None, gw_error_message = None,
                 gw_transaction_id = txn \<rparr>)"

text \<open>The gateway chosen in \<open>PaymentService.__init__\<close>.\<close>

definition process_payment ::
  "payment_env \<Rightarrow> (string \<times> json) list \<Rightarrow> error + gateway_response" where
  "process_payment env payment_details =
     (if use_mock_payment_gateway env
      then mock_process_payment (now (pay_broker env)) payment_details
      else Inr (real_process_payment (http env)))"

subsection \<open>Repository (app/repositories/payment_repository.py)\<close>

text \<open>The \<open>String(n)\<close> columns of a row of the \<open>payments\<close> table.\<close>

definition payment_row_fits :: "payment \<Rightarrow> bool" where
  "payment_row_fits p =
     (length (pay_user_id p) \<le> 255 \<and> length (pay_invoice_number p) \<le> 20 \<and>
      length (currency p) \<le> 3 \<and>
      (case transaction_reference p of None \<Rightarrow> True | Some r \<Rightarrow> length r \<le> 255))"

text \<open>
  \<open>PaymentRepository.create_payment\<close>. The first argument says whether the database
  enforces string lengths. The INSERT is rejected when a string is too long for its
  column or when the transaction reference (a unique column, built from the second of
  the clock and the invoice id) is already stored.
\<close>

definition repo_create_payment ::
  "bool \<Rightarrow> timestamp \<Rightarrow> string \<Rightarrow> nat \<Rightarrow> string \<Rightarrow> rat \<Rightarrow> string \<Rightarrow> string \<Rightarrow>
   (string \<times> json) list \<Rightarrow> payment_status \<Rightarrow> payment_state \<Rightarrow>
   (error + payment) \<times> payment_state" where
  "repo_create_payment enforce t user_id invoice_id number amount cur pmethod details status st =
     (let db_payment =
        \<lparr> pay_id = next_payment_id st, pay_user_id = user_id, pay_invoice_id = invoice_id,
          pay_invoice_number = number, pay_amount = amount, currency = cur,
          payment_method = pmethod,
          payment_method_details = (if details \<noteq> [] then Some (JObj details) else None),
          transaction_reference =
            Some (''TXN-'' @ string_of_nat t @ ''-'' @ string_of_nat invoice_id),
          external_reference = None, pay_status = status, status_message = None,
          payment_date = None, pay_created_at = t, pay_updated_at = t \<rparr>
      in if enforce \<and> \<not> payment_row_fits db_payment
         then (Inl (DataError ''payments''), st)
         else if transaction_reference db_payment \<in> set (map transaction_reference (payments st))
         then (Inl (IntegrityError ''payments.transaction_reference''), st)
         else (Inr db_payment,
               st\<lparr>payments := payments st @ [db_payment],
                  next_payment_id := next_payment_id st + 1\<rparr>))"

definition get_payment_by_transaction_reference ::
  "payment_state \<Rightarrow> string \<Rightarrow> payment option" where
  "get_payment_by_transaction_reference st ref =
     find (\<lambda>p. transaction_reference p = Some ref) (payments st)"

definition commit_payment :: "payment \<Rightarrow> payment_state \<Rightarrow> payment_state" where
  "commit_payment p st =
     st\<lparr>payments := map (\<lambda>q. if pay_id q = pay_id p then p else q) (payments st)\<rparr>"

text \<open>\<open>PaymentRepository.update_payment_status\<close>\<close>

definition update_payment_status ::
  "timestamp \<Rightarrow> payment \<Rightarrow> payment_status \<Rightarrow> string option \<Rightarrow> string option \<Rightarrow>
   payment_state \<Rightarrow> payment \<times> payment_state" where
  "update_payment_status t p status message ext_ref st =
     (let p1 = p\<lparr>pay_status := status\<rparr>;
          p2 = (if truthy message then p1\<lparr>status_message := message\<rparr> else p1);
          p3 = (if truthy ext_ref then p2\<lparr>external_reference := ext_ref\<rparr> else p2);
          p4 = (if status = COMPLETED \<and> payment_date p3 = None
                then p3\<lparr>payment_date := Some t\<rparr> else p3);
          p5 = p4\<lparr>pay_updated_at := t\<rparr>
      in (p5, commit_payment p5 st))"

text \<open>
  \<open>PaymentRepository.record_payment_attempt\<close>; the correlation id is a \<open>String(255)\<close>
  column.
\<close>

definition record_payment_attempt ::
  "bool \<Rightarrow> timestamp \<Rightarrow> nat \<Rightarrow> json \<Rightarrow> gateway_response \<Rightarrow> bool \<Rightarrow> string option \<Rightarrow>
   string option \<Rightarrow> payment_state \<Rightarrow> error + payment_state" where
  "record_payment_attempt enforce t payment_id request response success err correlation_id st =
     (if enforce \<and> (case correlation_id of None \<Rightarrow> False | Some c \<Rightarrow> length c > 255)
      then Inl (DataError ''payment_attempts.correlation_id'')
      else Inr (st\<lparr>attempts := attempts st @
                  [\<lparr> att_payment_id = payment_id, att_gateway_request = request,
                     att_gateway_response = response, att_success = (if success then 1 else 0),
                     att_error_message = err, att_correlation_id = correlation_id,
                     att_created_at = t \<rparr>]\<rparr>))"

subsection \<open>Publisher of the payment service\<close>

text \<open>
  Modelled from the spec: \<open>payment-service/app/core/event_publisher.py\<close> is not among
  the sources. The spec gives the routing keys \<open>payment.received\<close> and
  \<open>payment.failed\<close> and the common publish contract; the event type names are those of
  \<open>PaymentReceivedEvent\<close> and \<open>PaymentFailedEvent\<close> in \<open>app/schemas/payment.py\<close>; the
  payload is the dictionary the service passes.
\<close>

definition publish_payment_received ::
  "broker_env \<Rightarrow> (string \<times> json) list \<Rightarrow> string option \<Rightarrow> publisher \<Rightarrow> bool \<times> publisher" where
  "publish_payment_received env payment_data correlation_id pub =
     publish_event env ''payment.received''
       [(''event_type'', JStr ''payment_received''), (''payload'', JObj payment_data)]
       correlation_id pub"

definition publish_payment_failed ::
  "broker_env \<Rightarrow> (string \<times> json) list \<Rightarrow> string option \<Rightarrow> publisher \<Rightarrow> bool \<times> publisher" where
  "publish_payment_failed env payment_data correlation_id pub =
     publish_event env ''payment.failed''
       [(''event_type'', JStr ''payment_failed''), (''payload'', JObj payment_data)]
       correlation_id pub"

subsection \<open>Service (app/services/payment_service.py)\<close>

definition received_payload :: "timestamp \<Rightarrow> payment \<Rightarrow> string \<Rightarrow> (string \<times> json) list" where
  "received_payload t p user_id =
     [(''id'', JNum (of_nat (pay_id p))),
      (''invoice_id'', JNum (of_nat (pay_invoice_id p))),
      (''invoice_number'', JStr (pay_invoice_number p)),
      (''amount'', JNum (pay_amount p)),
      (''payment_method'', JStr (payment_method p)),
      (''transaction_reference'', opt_str (transaction_reference p)),
      (''payment_date'', JTime (case payment_date p of Some d \<Rightarrow> d | None \<Rightarrow> t)),
      (''status'', JStr (payment_status_value (pay_status p))),
      (''user_id'', JStr user_id)]"

definition failed_payload :: "payment \<Rightarrow> string option \<Rightarrow> string \<Rightarrow> (string \<times> json) list" where
  "failed_payload p err user_id =
     [(''id'', JNum (of_nat (pay_id p))),
      (''invoice_id'', JNum (of_nat (pay_invoice_id p))),
      (''invoice_number'', JStr (pay_invoice_number p)),
      (''amount'', JNum (pay_amount p)),
      (''payment_method'', JStr (payment_method p)),
      (''error_message'', opt_str err),
      (''user_id'', JStr user_id)]"

definition gateway_request ::
  "rat \<Rightarrow> string \<Rightarrow> nat \<Rightarrow> string \<Rightarrow> json" where
  "gateway_request amount pmethod invoice_id number =
     JObj [(''amount'', JNum amount), (''currency'', JStr ''USD''),
           (''payment_method'', JStr pmethod),
           (''metadata'', JObj [(''invoice_id'', JNum (of_nat invoice_id)),
                               (''invoice_number'', JStr number)])]"

text \<open>
  \<open>PaymentService.create_payment\<close>. The row, the gateway and the recorded request
  receive \<open>float(amount)\<close>. The gateway call is not guarded: when it raises, the
  exception leaves \<open>create_payment\<close> with the payment row already stored as PROCESSING.
\<close>

definition create_payment ::
  "payment_env \<Rightarrow> string \<Rightarrow> nat \<Rightarrow> string \<Rightarrow> rat \<Rightarrow> string \<Rightarrow> (string \<times> json) list \<Rightarrow>
   string option \<Rightarrow> payment_state \<Rightarrow> (error + payment) \<times> payment_state" where
  "create_payment env user_id invoice_id number amount pmethod payment_details correlation_id st =
     (if pmethod \<notin> set payment_methods
      then (Inl (HTTPException 400 (''Invalid payment method: '' @ pmethod)), st)
      else
        (case repo_create_payment (pay_db_enforces_lengths env) (now (pay_broker env)) user_id
                invoice_id number (float64 amount) ''USD'' pmethod payment_details
                PROCESSING st of
           (Inl e, st1) \<Rightarrow> (Inl e, st1)
         | (Inr db_payment, st1) \<Rightarrow>
             (case process_payment env payment_details of
                Inl e \<Rightarrow> (Inl e, st1)
              | Inr response \<Rightarrow>
                  (case record_payment_attempt (pay_db_enforces_lengths env)
                          (now (pay_broker env)) (pay_id db_payment)
                          (gateway_request (float64 amount) pmethod invoice_id number) response
                          (gw_success response) (gw_error_message response)
                          correlation_id st1 of
                     Inl e \<Rightarrow> (Inl e, st1)
                   | Inr st2 \<Rightarrow>
                       if gw_success response
                       then (case update_payment_status (now (pay_broker env)) db_payment
                                    COMPLETED None (gw_transaction_id response) st2 of
                               (updated_payment, st3) \<Rightarrow>
                                 (Inr updated_payment,
                                  st3\<lparr>pay_publisher :=
                                     snd (publish_payment_received (pay_broker env)
                                            (received_payload (now (pay_broker env))
                                               updated_payment user_id)
                                            correlation_id (pay_publisher st3))\<rparr>))
                       else (case update_payment_status (now (pay_broker env)) db_payment
                                    FAILED (gw_error_message response) None st2 of
                               (updated_payment, st3) \<Rightarrow>
                                 (Inr updated_payment,
                                  st3\<lparr>pay_publisher :=
                                     snd (publish_payment_failed (pay_broker env)
                                            (failed_payload updated_payment
                                               (gw_error_message response) user_id)
                                            correlation_id (pay_publisher st3))\<rparr>))))))"

text \<open>
  The webhook body: \<open>event_type\<close>, \<open>transaction_id\<close> and the optional
  \<open>error_message\<close> entry (\<open>None\<close> when the key is absent).
\<close>

record webhook_event =
  wh_event_type :: string
  wh_transaction_id :: "string option"
  wh_error_message :: "string option"

datatype webhook_result = Webhook_error string | Webhook_success

text \<open>\<open>event_data.get("error_message", "Payment failed")\<close>\<close>

definition webhook_error_message :: "webhook_event \<Rightarrow> string option" where
  "webhook_error_message ev =
     (case wh_error_message ev of None \<Rightarrow> Some ''Payment failed'' | Some m \<Rightarrow> Some m)"

definition handle_webhook_event ::
  "payment_env \<Rightarrow> webhook_event \<Rightarrow> payment_state \<Rightarrow> webhook_result \<times> payment_state" where
  "handle_webhook_event env ev st =
     (if \<not> truthy (wh_transaction_id ev)
      then (Webhook_error ''Missing transaction_id'', st)
      else
        (case get_payment_by_transaction_reference st (the (wh_transaction_id ev)) of
           None \<Rightarrow> (Webhook_error ''Payment not found'', st)
         | Some p \<Rightarrow>
             if wh_event_type ev = ''payment.succeeded''
             then (case update_payment_status (now (pay_broker env)) p COMPLETED
                          (Some ''Payment confirmed by gateway'') None st of
                     (p1, st1) \<Rightarrow>
                       (Webhook_success,
                        st1\<lparr>pay_publisher :=
                           snd (publish_payment_received (pay_broker env)
                                  (received_payload (now (pay_broker env)) p1 (pay_user_id p1))
                                  None (pay_publisher st1))\<rparr>))
             else if wh_event_type ev = ''payment.failed''
             then (case update_payment_status (now (pay_broker env)) p FAILED
                          (webhook_error_message ev) None st of
                     (p1, st1) \<Rightarrow>
                       (Webhook_success,
                        st1\<lparr>pay_publisher :=
                           snd (publish_payment_failed (pay_broker env)
                                  (failed_payload p1 (webhook_error_message ev) (pay_user_id p1))
                                  None (pay_publisher st1))\<rparr>))
             else if wh_event_type ev = ''payment.refunded''
             then (case update_payment_status (now (pay_broker env)) p REFUNDED
                          (Some ''Payment refunded'') None st of
                     (p1, st1) \<Rightarrow> (Webhook_success, st1))
             else (Webhook_success, st)))"

section \<open>Discount service\<close>

subsection \<open>Data model (app/models/discount.py, app/schemas/discount.py)\<close>

record discount_coupon =
  coupon_id :: nat
  coupon_code :: string
  coupon_description :: "string option"
  coupon_percent :: rat
  max_discount_amount :: "rat option"
  is_active :: bool
  valid_until :: "timestamp option"

record user_type_discount =
  utd_user_type :: string
  utd_percent :: rat

record amount_based_discount =
  min_amount :: rat
  max_amount :: "rat option"
  abd_percent :: rat

text \<open>
  A row of \<open>discount_applications\<close>; \<open>user_id\<close> and \<open>correlation_id\<close> are NOT NULL
  columns.
\<close>

record discount_application =
  app_user_id :: string
  app_original_amount :: rat
  app_discount_amount :: rat
  app_final_amount :: rat
  app_discount_type :: string
  app_coupon_id :: "nat option"
  app_correlation_id :: string
  app_created_at :: timestamp

text \<open>
  The \<open>DiscountRule\<close> schema. Its description is a text followed, for the amount tier,
  by the threshold that the source interpolates into it.
\<close>

record discount_rule =
  dr_name :: string
  dr_description :: "string \<times> rat option"
  dr_percent :: rat
  dr_type :: string

record discount_response =
  resp_original_amount :: rat
  resp_discount_amount :: rat
  resp_final_amount :: rat
  resp_discount_rule :: "discount_rule option"
  resp_coupon_code :: "string option"

record discount_state =
  coupons :: "discount_coupon list"
  user_type_discounts :: "user_type_discount list"
  amount_based_discounts :: "amount_based_discount list"
  applications :: "discount_application list"
  disc_publisher :: publisher

subsection \<open>Repository (app/repositories/discount_repository.py)\<close>

definition get_coupon_by_code ::
  "timestamp \<Rightarrow> discount_state \<Rightarrow> string \<Rightarrow> discount_coupon option" where
  "get_coupon_by_code t st cc =
     find (\<lambda>c. coupon_code c = cc \<and> is_active c \<and>
                (case valid_until c of None \<Rightarrow> True | Some u \<Rightarrow> u > t))
          (coupons st)"

definition get_user_type_discount ::
  "discount_state \<Rightarrow> string \<Rightarrow> user_type_discount option" where
  "get_user_type_discount st user_type =
     find (\<lambda>u. utd_user_type u = user_type) (user_type_discounts st)"

text \<open>
  \<open>order_by(discount_percent.desc()).first()\<close>: a row of greatest percentage; among
  equal percentages the earliest row is taken.
\<close>

fun highest_percent :: "amount_based_discount list \<Rightarrow> amount_based_discount option" where
  "highest_percent [] = None"
| "highest_percent (d # ds) =
     (case highest_percent ds of
        None \<Rightarrow> Some d
      | Some e \<Rightarrow> if abd_percent e > abd_percent d then Some e else Some d)"

definition get_amount_based_discount ::
  "discount_state \<Rightarrow> rat \<Rightarrow> amount_based_discount option" where
  "get_amount_based_discount st amount =
     highest_percent
       (filter (\<lambda>d. min_amount d \<le> amount \<and>
                     (case max_amount d of None \<Rightarrow> True | Some m \<Rightarrow> m \<ge> amount))
               (amount_based_discounts st))"

text \<open>
  \<open>DiscountRepository.create_discount_application\<close>. The three amounts are stored as
  \<open>float(...)\<close>. The INSERT is rejected when \<open>user_id\<close> or \<open>correlation_id\<close> is
  \<open>None\<close>, the default of both arguments in \<open>apply_discount\<close>.
\<close>

definition create_discount_application ::
  "timestamp \<Rightarrow> string option \<Rightarrow> rat \<Rightarrow> rat \<Rightarrow> rat \<Rightarrow> string \<Rightarrow> nat option \<Rightarrow>
   string option \<Rightarrow> discount_state \<Rightarrow> error + discount_state" where
  "create_discount_application t user_id original discount final dtype cid correlation_id st =
     (case user_id of
        None \<Rightarrow> Inl (IntegrityError ''discount_applications.user_id'')
      | Some u \<Rightarrow>
          (case correlation_id of
             None \<Rightarrow> Inl (IntegrityError ''discount_applications.correlation_id'')
           | Some c \<Rightarrow>
               Inr (st\<lparr>applications := applications st @
                      [\<lparr> app_user_id = u, app_original_amount = float64 original,
                         app_discount_amount = float64 discount,
                         app_final_amount = float64 final,
                         app_discount_type = dtype, app_coupon_id = cid,
                         app_correlation_id = c, app_created_at = t \<rparr>]\<rparr>)))"

subsection \<open>Publisher of the discount service (app/core/event_publisher.py)\<close>

definition publish_discount_applied ::
  "broker_env \<Rightarrow> (string \<times> json) list \<Rightarrow> string option \<Rightarrow> publisher \<Rightarrow> bool \<times> publisher" where
  "publish_discount_applied env discount_data correlation_id pub =
     publish_event env ''discount.applied''
       [(''event_type'', JStr ''discount_applied''),
        (''payload'', JObj
           [(''discount_amount'', dict_get discount_data ''discount_amount'' JNull),
            (''original_amount'', dict_get discount_data ''original_amount'' JNull),
            (''final_amount'', dict_get discount_data ''final_amount'' JNull),
            (''discount_type'', dict_get discount_data ''discount_type'' JNull),
            (''coupon_code'', dict_get discount_data ''coupon_code'' JNull),
            (''applied_at'', JTime (now env)),
            (''user_id'', dict_get discount_data ''user_id'' JNull)])]
       correlation_id pub"

subsection \<open>Service (app/services/discount_service.py)\<close>

text \<open>
  The local variables \<open>discount_amount\<close>, \<open>discount_rule\<close>, \<open>coupon_id\<close> and
  \<open>discount_type\<close> of \<open>apply_discount\<close>, threaded through its three \<open>if\<close> blocks.
\<close>

record discount_vars =
  v_discount_amount :: rat
  v_discount_rule :: "discount_rule option"
  v_coupon_id :: "nat option"
  v_discount_type :: string

definition initial_vars :: discount_vars where
  "initial_vars =
     \<lparr> v_discount_amount = 0, v_discount_rule = None, v_coupon_id = None,
       v_discount_type = ''none'' \<rparr>"

text \<open>First block: \<open>if coupon_code: ...\<close>\<close>

definition coupon_block ::
  "timestamp \<Rightarrow> discount_state \<Rightarrow> rat \<Rightarrow> string option \<Rightarrow> discount_vars \<Rightarrow> discount_vars" where
  "coupon_block t st amount cc vars =
     (if truthy cc
      then (case get_coupon_by_code t st (the cc) of
              None \<Rightarrow> vars
            | Some coupon \<Rightarrow>
                (let discount_percent = coupon_percent coupon;
                     d0 = amount * (discount_percent / 100);
                     d1 = (case max_discount_amount coupon of
                             None \<Rightarrow> d0
                           | Some max_discount \<Rightarrow>
                               if max_discount \<noteq> 0 \<and> d0 > max_discount
                               then max_discount else d0)
                 in \<lparr> v_discount_amount = d1,
                      v_discount_rule = Some
                        \<lparr> dr_name = ''Coupon: '' @ the cc,
                          dr_description =
                            (if truthy (coupon_description coupon)
                             then the (coupon_description coupon)
                             else ''Coupon discount'', None),
                          dr_percent = discount_percent, dr_type = ''coupon'' \<rparr>,
                      v_coupon_id = Some (coupon_id coupon),
                      v_discount_type = ''coupon'' \<rparr>))
      else vars)"

text \<open>Second block: \<open>if discount_amount == Decimal('0.0') and user_id: ...\<close>\<close>

definition user_type_block ::
  "discount_state \<Rightarrow> rat \<Rightarrow> string option \<Rightarrow> discount_vars \<Rightarrow> discount_vars" where
  "user_type_block st amount user_id vars =
     (if v_discount_amount vars = 0 \<and> truthy user_id
      then (let user_type = ''regular''
            in case get_user_type_discount st user_type of
                 None \<Rightarrow> vars
               | Some user_discount \<Rightarrow>
                   vars\<lparr> v_discount_amount := amount * (utd_percent user_discount / 100),
                         v_discount_rule := Some
                           \<lparr> dr_name = ''User Type: '' @ user_type,
                             dr_description =
                               (''Discount for '' @ user_type @ '' users'', None),
                             dr_percent = utd_percent user_discount,
                             dr_type = ''user_type'' \<rparr>,
                         v_discount_type := ''user_type'' \<rparr>)
      else vars)"

text \<open>Third block: \<open>if discount_amount == Decimal('0.0'): ...\<close>\<close>

definition amount_block :: "discount_state \<Rightarrow> rat \<Rightarrow> discount_vars \<Rightarrow> discount_vars" where
  "amount_block st amount vars =
     (if v_discount_amount vars = 0
      then (case get_amount_based_discount st amount of
              None \<Rightarrow> vars
            | Some amount_discount \<Rightarrow>
                vars\<lparr> v_discount_amount := amount * (abd_percent amount_discount / 100),
                      v_discount_rule := Some
                        \<lparr> dr_name = ''Amount Based'',
                          dr_description =
                            (''Discount for orders over '', Some (min_amount amount_discount)),
                          dr_percent = abd_percent amount_discount,
                          dr_type = ''amount_based'' \<rparr>,
                      v_discount_type := ''amount_based'' \<rparr>)
      else vars)"

definition discount_vars_of ::
  "timestamp \<Rightarrow> discount_state \<Rightarrow> rat \<Rightarrow> string option \<Rightarrow> string option \<Rightarrow> discount_vars" where
  "discount_vars_of t st amount cc user_id =
     amount_block st amount
       (user_type_block st amount user_id
          (coupon_block t st amount cc initial_vars))"

text \<open>
  \<open>DiscountService.apply_discount\<close>. When the discount is positive the application row
  is inserted and the event, which carries the amounts as \<open>float(...)\<close>, is published;
  a rejected INSERT raises before anything is published. The response carries the
  \<open>Decimal\<close> amounts.
\<close>

definition apply_discount ::
  "broker_env \<Rightarrow> rat \<Rightarrow> string option \<Rightarrow> string option \<Rightarrow> string option \<Rightarrow>
   discount_state \<Rightarrow> (error + discount_response) \<times> discount_state" where
  "apply_discount env amount cc user_id correlation_id st =
     (let vars = discount_vars_of (now env) st amount cc user_id;
          discount_amt = v_discount_amount vars;
          final_amount = amount - discount_amt;
          response =
            \<lparr> resp_original_amount = amount, resp_discount_amount = discount_amt,
              resp_final_amount = final_amount, resp_discount_rule = v_discount_rule vars,
              resp_coupon_code = (if v_discount_type vars = ''coupon'' then cc else None) \<rparr>
      in if discount_amt > 0
         then (case create_discount_application (now env) user_id amount
                      discount_amt final_amount (v_discount_type vars)
                      (v_coupon_id vars) correlation_id st of
                 Inl e \<Rightarrow> (Inl e, st)
               | Inr st1 \<Rightarrow>
                   (Inr response,
                    st1\<lparr>disc_publisher :=
                       snd (publish_discount_applied env
                              [(''discount_amount'', JNum (float64 discount_amt)),
                               (''original_amount'', JNum (float64 amount)),
                               (''final_amount'', JNum (float64 final_amount)),
                               (''discount_type'', JStr (v_discount_type vars)),
                               (''coupon_code'', opt_str cc),
                               (''user_id'', opt_str user_id)]
                              correlation_id (disc_publisher st1))\<rparr>))
         else (Inr response, st))"

section \<open>Tax service\<close>

subsection \<open>Data model (app/models/tax.py, app/schemas/tax.py)\<close>

record tax_rule =
  tr_id :: nat
  tr_name :: string
  tr_description :: "string option"
  tr_rate :: rat
  tr_product_type :: string

text \<open>The \<open>TaxRule\<close> schema of the response: \<open>description\<close> is a required string.\<close>

record tax_rule_schema =
  trs_name :: string
  trs_description :: string
  trs_rate :: rat

record tax_calculation =
  tc_user_id :: string
  tc_original_amount :: rat
  tc_tax_amount :: rat
  tc_total_amount :: rat
  tc_product_type :: string
  tc_rule_id :: nat
  tc_correlation_id :: string
  tc_created_at :: timestamp

record tax_response =
  tax_original_amount :: rat
  tax_tax_amount :: rat
  tax_rules_applied :: "tax_rule_schema list"
  tax_total_amount :: rat

record tax_state =
  tax_rules :: "tax_rule list"
  calculations :: "tax_calculation list"
  tax_publisher :: publisher

subsection \<open>Repository (app/repositories/tax_repository.py)\<close>

definition get_tax_rules_by_product_type :: "tax_state \<Rightarrow> string \<Rightarrow> tax_rule list" where
  "get_tax_rules_by_product_type st product_type =
     filter (\<lambda>r. tr_product_type r = product_type) (tax_rules st)"

definition get_default_tax_rule :: "tax_state \<Rightarrow> tax_rule option" where
  "get_default_tax_rule st = find (\<lambda>r. tr_name r = ''default'') (tax_rules st)"

text \<open>
  \<open>TaxRepository.create_tax_calculation\<close>; the three amounts are stored as
  \<open>float(...)\<close>.
\<close>

definition create_tax_calculation ::
  "timestamp \<Rightarrow> string \<Rightarrow> rat \<Rightarrow> rat \<Rightarrow> rat \<Rightarrow> string \<Rightarrow> nat \<Rightarrow> string \<Rightarrow>
   tax_state \<Rightarrow> tax_state" where
  "create_tax_calculation t user_id original tax total_amt product_type rule_id correlation_id st =
     st\<lparr>calculations := calculations st @
        [\<lparr> tc_user_id = user_id, tc_original_amount = float64 original,
           tc_tax_amount = float64 tax, tc_total_amount = float64 total_amt,
           tc_product_type = product_type,
           tc_rule_id = rule_id, tc_correlation_id = correlation_id,
           tc_created_at = t \<rparr>]\<rparr>"

subsection \<open>Publisher of the tax service\<close>

text \<open>
  Modelled from the spec: \<open>tax-service/app/core/event_publisher.py\<close> is not among the
  sources. The spec gives the routing key \<open>tax.calculated\<close> and the common publish
  contract; the event type name is that of \<open>TaxCalculatedEvent\<close> in
  \<open>app/schemas/tax.py\<close>; the payload is the dictionary the service passes.
\<close>

definition publish_tax_calculated ::
  "broker_env \<Rightarrow> (string \<times> json) list \<Rightarrow> string option \<Rightarrow> publisher \<Rightarrow> bool \<times> publisher" where
  "publish_tax_calculated env tax_data correlation_id pub =
     publish_event env ''tax.calculated''
       [(''event_type'', JStr ''tax_calculated''), (''payload'', JObj tax_data)]
       correlation_id pub"

subsection \<open>Service (app/services/tax_service.py)\<close>

text \<open>
  Building the \<open>TaxRule\<close> schema object of one rule: validation rejects a rule whose
  description column is NULL.
\<close>

definition make_tax_rule_schema :: "tax_rule \<Rightarrow> error + tax_rule_schema" where
  "make_tax_rule_schema r =
     (case tr_description r of
        None \<Rightarrow> Inl (ValidationError ''description'')
      | Some d \<Rightarrow> Inr \<lparr> trs_name = tr_name r, trs_description = d, trs_rate = tr_rate r \<rparr>)"

text \<open>The loop over \<open>db_tax_rules\<close>, threading \<open>tax_amount\<close> and \<open>rules_applied\<close>.\<close>

fun tax_loop ::
  "rat \<Rightarrow> tax_rule list \<Rightarrow> rat \<Rightarrow> tax_rule_schema list \<Rightarrow> error + (rat \<times> tax_rule_schema list)" where
  "tax_loop amount [] tax_amt rules_applied = Inr (tax_amt, rules_applied)"
| "tax_loop amount (r # rs) tax_amt rules_applied =
     (let rule_tax = amount * tr_rate r
      in case make_tax_rule_schema r of
           Inl e \<Rightarrow> Inl e
         | Inr schema \<Rightarrow> tax_loop amount rs (tax_amt + rule_tax) (rules_applied @ [schema]))"

definition applicable_rules :: "tax_state \<Rightarrow> string \<Rightarrow> tax_rule list" where
  "applicable_rules st product_type =
     (let db_tax_rules = get_tax_rules_by_product_type st product_type
      in if db_tax_rules = []
         then (case get_default_tax_rule st of
                 None \<Rightarrow> db_tax_rules
               | Some default_rule \<Rightarrow> [default_rule])
         else db_tax_rules)"

definition calculate_tax ::
  "broker_env \<Rightarrow> rat \<Rightarrow> string \<Rightarrow> string \<Rightarrow> string \<Rightarrow> tax_state \<Rightarrow>
   (error + tax_response) \<times> tax_state" where
  "calculate_tax env amount product_type user_id correlation_id st =
     (let db_tax_rules = applicable_rules st product_type
      in case tax_loop amount db_tax_rules 0 [] of
           Inl e \<Rightarrow> (Inl e, st)
         | Inr (tax_amt, rules_applied) \<Rightarrow>
             (let total_amt = amount + tax_amt;
                  st1 = (if db_tax_rules \<noteq> []
                         then create_tax_calculation (now env) user_id amount tax_amt total_amt
                                product_type (tr_id (hd db_tax_rules)) correlation_id st
                         else st);
                  response = \<lparr> tax_original_amount = amount, tax_tax_amount = tax_amt,
                               tax_rules_applied = rules_applied,
                               tax_total_amount = total_amt \<rparr>;
                  st2 = st1\<lparr>tax_publisher :=
                          snd (publish_tax_calculated env
                                 [(''tax_amount'', JNum (float64 tax_amt)),
                                  (''rules_applied'',
                                   JArr (map (\<lambda>rule. JObj [(''name'', JStr (trs_name rule)),
                                                            (''rate'', JNum (float64 (trs_rate rule)))])
                                             rules_applied)),
                                  (''product_type'', JStr product_type),
                                  (''original_amount'', JNum (float64 amount)),
                                  (''user_id'', JStr user_id)]
                                 (Some correlation_id) (tax_publisher st1))\<rparr>
              in (Inr response, st2)))"

section \<open>Example values\<close>

definition ex_broker :: broker_env where
  "ex_broker = \<lparr> now = 10, uuid1 = ''e-1'', uuid2 = ''c-1'', connect_ok = True, publish_ok = True \<rparr>"

definition ex_broker_later :: broker_env where
  "ex_broker_later = \<lparr> now = 20, uuid1 = ''e-2'', uuid2 = ''c-2'', connect_ok = True, publish_ok = True \<rparr>"

definition ex_broker_down :: broker_env where
  "ex_broker_down = \<lparr> now = 10, uuid1 = ''e-1'', uuid2 = ''c-1'', connect_ok = False, publish_ok = False \<rparr>"

definition ex_publisher :: publisher where
  "ex_publisher = \<lparr> connected = False, connect_calls = 0, sent = [] \<rparr>"

definition ex_invoice :: invoice where
  "ex_invoice =
     \<lparr> inv_id = 1, invoice_number = ''INV-1-00000001'', inv_user_id = ''alice'',
       customer_id = ''cust-1'', customer_name = ''Carol'', customer_email = ''carol@example.com'',
       customer_address = None, subtotal = 100, tax_amount = 10, discount_amount = 5,
       total_amount = 105, inv_status = DRAFT, inv_notes = None, issue_date = 1,
       due_date = None, paid_date = None, inv_created_at = 1, inv_updated_at = 1 \<rparr>"

definition ex_invoice_state :: "invoice_status \<Rightarrow> invoice_state" where
  "ex_invoice_state status =
     \<lparr> invoices = [ex_invoice\<lparr>inv_status := status\<rparr>], items = [], history = [],
       next_invoice_id = 2, inv_publisher = ex_publisher \<rparr>"

definition ex_invoice_env :: invoice_env where
  "ex_invoice_env =
     \<lparr> broker = ex_broker, uuid_digits = ''123456789012345678901234567890'',
       db_enforces_lengths = True, pdf_generation_enabled = True, makedirs_ok = True \<rparr>"

definition ex_invoice_env_later :: invoice_env where
  "ex_invoice_env_later =
     \<lparr> broker = ex_broker_later, uuid_digits = ''876543210987654321098765432109'',
       db_enforces_lengths = True, pdf_generation_enabled = True, makedirs_ok = True \<rparr>"

text \<open>The same environment with a clock of the year 2023.\<close>

definition ex_invoice_env_2023 :: invoice_env where
  "ex_invoice_env_2023 =
     \<lparr> broker = \<lparr> now = 1700000000, uuid1 = ''e-3'', uuid2 = ''c-3'', connect_ok = True,
                  publish_ok = True \<rparr>,
       uuid_digits = ''123456789012345678901234567890'',
       db_enforces_lengths = True, pdf_generation_enabled = True, makedirs_ok = True \<rparr>"

definition ex_payment :: payment where
  "ex_payment =
     \<lparr> pay_id = 1, pay_user_id = ''alice'', pay_invoice_id = 1,
       pay_invoice_number = ''INV-1-00000001'', pay_amount = 105, currency = ''USD'',
       payment_method = ''credit_card'', payment_method_details = None,
       transaction_reference = Some ''TXN-5-1'', external_reference = Some ''mock-txn-5'',
       pay_status = COMPLETED, status_message = None, payment_date = Some 5,
       pay_created_at = 5, pay_updated_at = 5 \<rparr>"

definition ex_payment_state :: payment_state where
  "ex_payment_state =
     \<lparr> payments = [ex_payment], attempts = [], next_payment_id = 2,
       pay_publisher = ex_publisher \<rparr>"

definition ex_empty_payment_state :: payment_state where
  "ex_empty_payment_state =
     \<lparr> payments = [], attempts = [], next_payment_id = 1, pay_publisher = ex_publisher \<rparr>"

definition ex_payment_env :: payment_env where
  "ex_payment_env =
     \<lparr> pay_broker = ex_broker, use_mock_payment_gateway = True, http = Http_raised [],
       pay_db_enforces_lengths = True \<rparr>"

definition ex_payment_env_later :: payment_env where
  "ex_payment_env_later =
     \<lparr> pay_broker = ex_broker_later, use_mock_payment_gateway = True, http = Http_raised [],
       pay_db_enforces_lengths = True \<rparr>"

text \<open>The real gateway answering 402 with a body that has no \<open>error\<close> entry.\<close>

definition ex_payment_env_real :: payment_env where
  "ex_payment_env_real =
     \<lparr> pay_broker = ex_broker, use_mock_payment_gateway = False,
       http = Http_response 402 None None None, pay_db_enforces_lengths = True \<rparr>"

definition ex_webhook :: webhook_event where
  "ex_webhook =
     \<lparr> wh_event_type = ''payment.succeeded'', wh_transaction_id = Some ''TXN-5-1'',
       wh_error_message = None \<rparr>"

definition ex_cancelled_state :: invoice_state where
  "ex_cancelled_state =
     snd (cancel_invoice ex_invoice_env 1 ''alice'' None (ex_invoice_state DRAFT))"

text \<open>
  A \<open>payment_received\<close> event for the whole total (105) of the example invoice.
\<close>

definition ex_payment_received :: envelope where
  "ex_payment_received =
     \<lparr> event_id = ''e-9'', event_type = JStr ''payment_received'', env_timestamp = 9,
       env_correlation_id = ''c-9'', source_service = None,
       payload = JObj [(''id'', JNum 1), (''invoice_id'', JNum 1),
                       (''invoice_number'', JStr ''INV-1-00000001''), (''amount'', JNum 105),
                       (''payment_method'', JStr ''credit_card''),
                       (''transaction_reference'', JStr ''TXN-5-1''),
                       (''payment_date'', JTime 5), (''status'', JStr ''completed''),
                       (''user_id'', JStr ''alice'')] \<rparr>"

text \<open>The example payment state after a first delivery of the example webhook.\<close>

definition ex_webhook_state :: payment_state where
  "ex_webhook_state = snd (handle_webhook_event ex_payment_env ex_webhook ex_payment_state)"

definition ex_card_details :: "(string \<times> json) list" where
  "ex_card_details = [(''card_number'', JStr ''4242424242424242'')]"

text \<open>A card number that the mock gateway declines.\<close>

definition ex_declined_details :: "(string \<times> json) list" where
  "ex_declined_details = [(''card_number'', JStr ''4000000000000000'')]"

text \<open>A card number given as a number instead of a string.\<close>

definition ex_numeric_card_details :: "(string \<times> json) list" where
  "ex_numeric_card_details = [(''card_number'', JNum 4000000000000000)]"

definition ex_declined :: gateway_response where
  "ex_declined =
     \<lparr> gw_success = False, gw_error_code = Some ''card_declined'',
       gw_error_message = Some ''Card was declined'', gw_transaction_id = None \<rparr>"






text \<open>A tax database whose only rule for digital products has no description.\<close>

definition ex_tax_state :: tax_state where
  "ex_tax_state =
     \<lparr> tax_rules =
         [\<lparr> tr_id = 1, tr_name = ''vat'', tr_description = None, tr_rate = 1 / 10,
            tr_product_type = ''digital'' \<rparr>],
       calculations = [],
       tax_publisher = ex_publisher \<rparr>"

definition ex_empty_tax_state :: tax_state where
  "ex_empty_tax_state = \<lparr> tax_rules = [], calculations = [], tax_publisher = ex_publisher \<rparr>"

section \<open>Predicates of the properties\<close>

text \<open>The four monetary fields of an invoice, and the equation between them.\<close>

definition monetary :: "invoice \<Rightarrow> rat \<times> rat \<times> rat \<times> rat" where
  "monetary i = (subtotal i, tax_amount i, discount_amount i, total_amount i)"

definition total_invariant :: "invoice \<Rightarrow> bool" where
  "total_invariant i = (total_amount i = subtotal i + tax_amount i - discount_amount i)"



text \<open>The row that \<open>update_invoice_status\<close> writes when the status changes.\<close>

definition status_written :: "timestamp \<Rightarrow> invoice \<Rightarrow> invoice_status \<Rightarrow> invoice" where
  "status_written t a s =
     a\<lparr>inv_status := s,
       paid_date := (if s = PAID \<and> paid_date a = None then Some t else paid_date a),
       inv_updated_at := t\<rparr>"

text \<open>
  The status that \<open>handle_webhook_event\<close> writes for an event type, and the status
  message it passes to \<open>update_payment_status\<close>.
\<close>

definition webhook_outcome :: "string \<Rightarrow> payment_status option" where
  "webhook_outcome et =
     (if et = ''payment.succeeded'' then Some COMPLETED
      else if et = ''payment.failed'' then Some FAILED
      else if et = ''payment.refunded'' then Some REFUNDED
      else None)"

definition webhook_status_message :: "webhook_event \<Rightarrow> string option" where
  "webhook_status_message ev =
     (if wh_event_type ev = ''payment.succeeded'' then Some ''Payment confirmed by gateway''
      else if wh_event_type ev = ''payment.failed'' then webhook_error_message ev
      else Some ''Payment refunded'')"

text \<open>The row a repeated webhook writes over a payment that already has the status.\<close>

definition redelivered :: "timestamp \<Rightarrow> webhook_event \<Rightarrow> payment \<Rightarrow> payment" where
  "redelivered t ev p =
     p\<lparr>status_message :=
         (if truthy (webhook_status_message ev) then webhook_status_message ev
          else status_message p),
       payment_date :=
         (if pay_status p = COMPLETED \<and> payment_date p = None then Some t
          else payment_date p),
       pay_updated_at := t\<rparr>"

text \<open>
  The INSERTs of \<open>create_payment\<close> (the payment, later the attempt) are accepted: no
  string is too long for its column when the database enforces lengths, and the
  transaction reference is not stored yet.
\<close>

definition payment_accepted ::
  "payment_env \<Rightarrow> string \<Rightarrow> nat \<Rightarrow> string \<Rightarrow> string option \<Rightarrow> payment_state \<Rightarrow> bool" where
  "payment_accepted env user_id invoice_id number correlation_id st =
     ((pay_db_enforces_lengths env \<longrightarrow>
         length user_id \<le> 255 \<and> length number \<le> 20 \<and>
         length (''TXN-'' @ string_of_nat (now (pay_broker env)) @ ''-'' @
                 string_of_nat invoice_id) \<le> 255 \<and>
         (case correlation_id of None \<Rightarrow> True | Some c \<Rightarrow> length c \<le> 255)) \<and>
      Some (''TXN-'' @ string_of_nat (now (pay_broker env)) @ ''-'' @ string_of_nat invoice_id)
        \<notin> set (map transaction_reference (payments st)))"

text \<open>
  The row \<open>create_payment\<close> inserts before it calls the gateway, and the row it stores
  after a gateway failure; the amount is the one given to the repository,
  \<open>float(amount)\<close>.
\<close>

definition processing_payment ::
  "timestamp \<Rightarrow> nat \<Rightarrow> string \<Rightarrow> nat \<Rightarrow> string \<Rightarrow> rat \<Rightarrow> string \<Rightarrow>
   (string \<times> json) list \<Rightarrow> payment" where
  "processing_payment t new_id user_id invoice_id number amount pmethod details =
     \<lparr> pay_id = new_id, pay_user_id = user_id, pay_invoice_id = invoice_id,
       pay_invoice_number = number, pay_amount = amount, currency = ''USD'',
       payment_method = pmethod,
       payment_method_details = (if details \<noteq> [] then Some (JObj details) else None),
       transaction_reference =
         Some (''TXN-'' @ string_of_nat t @ ''-'' @ string_of_nat invoice_id),
       external_reference = None, pay_status = PROCESSING, status_message = None,
       payment_date = None, pay_created_at = t, pay_updated_at = t \<rparr>"

definition failed_payment ::
  "timestamp \<Rightarrow> nat \<Rightarrow> string \<Rightarrow> nat \<Rightarrow> string \<Rightarrow> rat \<Rightarrow> string \<Rightarrow>
   (string \<times> json) list \<Rightarrow> string option \<Rightarrow> payment" where
  "failed_payment t new_id user_id invoice_id number amount pmethod details err =
     \<lparr> pay_id = new_id, pay_user_id = user_id, pay_invoice_id = invoice_id,
       pay_invoice_number = number, pay_amount = amount, currency = ''USD'',
       payment_method = pmethod,
       payment_method_details = (if details \<noteq> [] then Some (JObj details) else None),
       transaction_reference =
         Some (''TXN-'' @ string_of_nat t @ ''-'' @ string_of_nat invoice_id),
       external_reference = None, pay_status = FAILED,
       status_message = (if truthy err then err else None),
       payment_date = None, pay_created_at = t, pay_updated_at = t \<rparr>"





section \<open>Properties\<close>

subsection \<open>Event publisher\<close>

lemma publish_event_core_contract:
  "(let r = publish_event_core svc env rk ed cid pub;
        m = make_message (make_event svc env ed cid) cid
    in (fst r \<longleftrightarrow> (connected pub \<or> connect_ok env) \<and> publish_ok env) \<and>
       connect_calls (snd r) = connect_calls pub + (if connected pub then 0 else 1) \<and>
       (\<not> connected pub \<and> \<not> connect_ok env \<longrightarrow> \<not> fst r \<and> sent (snd r) = sent pub) \<and>
       (fst r \<longrightarrow> sent (snd r) = sent pub @ [(rk, m)]) \<and>
       (\<not> fst r \<longrightarrow> sent (snd r) = sent pub) \<and>
       msg_delivery_mode m = PERSISTENT \<and>
       event_id (body m) = uuid1 env \<and>
       env_timestamp (body m) = now env \<and>
       env_correlation_id (body m) = (if truthy cid then the cid else uuid2 env) \<and>
       source_service (body m) = svc \<and>
       payload (body m) = dict_get ed ''payload'' (JObj []))"
  by (auto simp: publish_event_core_def connect_def broker_connect_def exchange_publish_def
        make_message_def make_event_def Let_def)

text \<open>
  C9. \<open>publish_event\<close> answers with a boolean on every path: each step of the source that
  can raise (the connection attempt, the body of the \<open>try\<close> block) is an outcome of the
  environment, and the result is \<open>True\<close> exactly when the publisher is or becomes
  connected and the \<open>try\<close> block does not raise. A publisher that is not connected makes
  exactly one connection attempt, and when that fails the result is \<open>False\<close> and nothing
  is sent. A successful call hands the exchange one message under the routing key; the
  message is marked persistent and its envelope carries the generated event id, the
  current time, the given correlation id (a generated one when none or an empty one is
  given) and the payload. The same holds for \<open>BaseEventPublisher.publish_event\<close>, which
  also writes the service name.
\<close>

theorem publish_event_contract:
  "(let r = publish_event env rk ed cid pub;
        m = make_message (make_event None env ed cid) cid
    in (fst r \<longleftrightarrow> (connected pub \<or> connect_ok env) \<and> publish_ok env) \<and>
       connect_calls (snd r) = connect_calls pub + (if connected pub then 0 else 1) \<and>
       (\<not> connected pub \<and> \<not> connect_ok env \<longrightarrow> \<not> fst r \<and> sent (snd r) = sent pub) \<and>
       (fst r \<longrightarrow> sent (snd r) = sent pub @ [(rk, m)]) \<and>
       (\<not> fst r \<longrightarrow> sent (snd r) = sent pub) \<and>
       msg_delivery_mode m = PERSISTENT \<and>
       event_id (body m) = uuid1 env \<and>
       env_timestamp (body m) = now env \<and>
       env_correlation_id (body m) = (if truthy cid then the cid else uuid2 env) \<and>
       source_service (body m) = None \<and>
       payload (body m) = dict_get ed ''payload'' (JObj [])) \<and>
   (let r = base_publish_event service_name env rk ed cid pub;
        m = make_message (make_event (Some service_name) env ed cid) cid
    in (fst r \<longleftrightarrow> (connected pub \<or> connect_ok env) \<and> publish_ok env) \<and>
       connect_calls (snd r) = connect_calls pub + (if connected pub then 0 else 1) \<and>
       (\<not> connected pub \<and> \<not> connect_ok env \<longrightarrow> \<not> fst r \<and> sent (snd r) = sent pub) \<and>
       (fst r \<longrightarrow> sent (snd r) = sent pub @ [(rk, m)]) \<and>
       (\<not> fst r \<longrightarrow> sent (snd r) = sent pub) \<and>
       msg_delivery_mode m = PERSISTENT \<and>
       event_id (body m) = uuid1 env \<and>
       env_timestamp (body m) = now env \<and>
       env_correlation_id (body m) = (if truthy cid then the cid else uuid2 env) \<and>
       source_service (body m) = Some service_name \<and>
       payload (body m) = dict_get ed ''payload'' (JObj []))"
  unfolding publish_event_def base_publish_event_def
  using publish_event_core_contract [of None env rk ed cid pub]
        publish_event_core_contract [of "Some service_name" env rk ed cid pub]
  by blast

theorem publish_event_contract_witness:
  "\<not> connected ex_publisher \<and> \<not> connect_ok ex_broker_down \<and>
   \<not> fst (publish_event ex_broker_down ''invoice.created'' [] None ex_publisher) \<and>
   connect_calls (snd (publish_event ex_broker_down ''invoice.created'' [] None ex_publisher)) = 1 \<and>
   fst (publish_event ex_broker ''invoice.created'' [] (Some ''corr-7'') ex_publisher) \<and>
   map fst (sent (snd (publish_event ex_broker ''invoice.created'' [] (Some ''corr-7'') ex_publisher)))
     = [''invoice.created'']"
  using publish_event_contract [of ex_broker_down "''invoice.created''" "[]" None ex_publisher]
        publish_event_contract [of ex_broker "''invoice.created''" "[]" "Some ''corr-7''" ex_publisher]
  by (simp add: ex_broker_down_def ex_broker_def ex_publisher_def Let_def)

subsection \<open>Completion dates\<close>

text \<open>
  C10. \<open>update_payment_status\<close> and \<open>update_invoice_status\<close> never overwrite a date that
  is set: a payment date (paid date) that is present is returned and stored unchanged,
  whatever status is written; one that is absent is set to the current time exactly when
  the new status is COMPLETED (for an invoice: when the status changes to PAID) and stays
  absent otherwise.
\<close>

theorem completion_dates_written_once:
  "(let r = update_payment_status t p status msg ext st
    in (payment_date p = Some d \<longrightarrow> payment_date (fst r) = Some d) \<and>
       (payment_date p = None \<longrightarrow>
          payment_date (fst r) = (if status = COMPLETED then Some t else None)) \<and>
       payments (snd r) = map (\<lambda>q. if pay_id q = pay_id p then fst r else q) (payments st)) \<and>
   (let r = update_invoice_status t invoice user_id status' ist
    in (paid_date invoice = Some d' \<longrightarrow> paid_date (fst r) = Some d') \<and>
       (paid_date invoice = None \<longrightarrow>
          paid_date (fst r) =
            (if status' = PAID \<and> inv_status invoice \<noteq> PAID then Some t else None)) \<and>
       invoices (snd r) =
         (if inv_status invoice \<noteq> status'
          then map (\<lambda>i. if inv_id i = inv_id invoice then fst r else i) (invoices ist)
          else invoices ist))"
  by (simp add: update_payment_status_def update_invoice_status_def Let_def
        commit_payment_def commit_invoice_def add_history_entry_def)

theorem completion_dates_written_once_witness:
  "payment_date ex_payment = Some 5 \<and>
   payment_date (fst (update_payment_status 20 ex_payment REFUNDED None None ex_payment_state)) = Some 5 \<and>
   payment_date (ex_payment\<lparr>payment_date := None\<rparr>) = None \<and>
   payment_date (fst (update_payment_status 20 (ex_payment\<lparr>payment_date := None\<rparr>)
                        COMPLETED None None ex_payment_state)) = Some 20 \<and>
   paid_date (ex_invoice\<lparr>paid_date := Some 7\<rparr>) = Some 7 \<and>
   paid_date (fst (update_invoice_status 20 (ex_invoice\<lparr>paid_date := Some 7\<rparr>) ''alice'' PAID
                     (ex_invoice_state DRAFT))) = Some 7 \<and>
   paid_date ex_invoice = None \<and>
   paid_date (fst (update_invoice_status 20 ex_invoice ''alice'' PAID (ex_invoice_state DRAFT)))
     = Some 20"
  using completion_dates_written_once
          [of 20 ex_payment REFUNDED None None ex_payment_state 5
              ex_invoice "''alice''" CANCELLED "ex_invoice_state DRAFT" 0]
        completion_dates_written_once
          [of 20 "ex_payment\<lparr>payment_date := None\<rparr>" COMPLETED None None ex_payment_state 0
              "ex_invoice\<lparr>paid_date := Some 7\<rparr>" "''alice''" PAID "ex_invoice_state DRAFT" 7]
        completion_dates_written_once
          [of 20 ex_payment REFUNDED None None ex_payment_state 5
              ex_invoice "''alice''" PAID "ex_invoice_state DRAFT" 0]
  by (simp add: ex_payment_def ex_invoice_def Let_def)

subsection \<open>Invoice lifecycle\<close>

lemma find_by_id_replaced:
  "find (\<lambda>i. inv_id i = k) xs = Some a \<Longrightarrow> inv_id b = k \<Longrightarrow>
   find (\<lambda>i. inv_id i = k) (map (\<lambda>i. if inv_id i = k then b else i) xs) = Some b"
proof (induction xs)
  case Nil
  then show ?case by simp
next
  case (Cons x xs)
  show ?case
  proof (cases "inv_id x = k")
    case True
    with Cons.prems show ?thesis by simp
  next
    case False
    with Cons show ?thesis by simp
  qed
qed

lemma get_invoice_by_id_found:
  "get_invoice_by_id st k = Some a \<Longrightarrow> inv_id a = k \<and> a \<in> set (invoices st)"
  unfolding get_invoice_by_id_def find_Some_iff by (metis nth_mem)

lemma get_invoice_cases:
  "get_invoice_by_id st k = Some a \<Longrightarrow>
   get_invoice st k u = (if inv_user_id a \<noteq> u
                         then Inl (HTTPException 403 ''Not authorized to access this invoice'')
                         else Inr a)"
  by (simp add: get_invoice_def)


lemma update_invoice_status_changed_eq:
  "inv_status a \<noteq> s \<Longrightarrow>
   update_invoice_status t a u s st =
     (status_written t a s,
      add_history_entry t (inv_id a) u ''status_change'' (Status_details (inv_status a) s)
        (commit_invoice (status_written t a s) st))"
  by (simp add: update_invoice_status_def status_written_def Let_def)

lemma update_invoice_status_same:
  "inv_status a = s \<Longrightarrow> update_invoice_status t a u s st = (a, st)"
  by (simp add: update_invoice_status_def)

lemma status_written_fields:
  "inv_id (status_written t a s) = inv_id a"
  "inv_status (status_written t a s) = s"
  "inv_user_id (status_written t a s) = inv_user_id a"
  by (simp_all add: status_written_def)

lemma get_after_status_written:
  assumes "get_invoice_by_id st k = Some a"
  shows "get_invoice_by_id
           (add_history_entry t' k' u' ac d (commit_invoice (status_written t a s) st)) k
         = Some (status_written t a s)"
proof -
  from assms have k: "inv_id a = k"
    by (simp add: get_invoice_by_id_found)
  from assms have f: "find (\<lambda>i. inv_id i = k) (invoices st) = Some a"
    by (simp add: get_invoice_by_id_def)
  have "find (\<lambda>i. inv_id i = k)
          (map (\<lambda>i. if inv_id i = k then status_written t a s else i) (invoices st))
        = Some (status_written t a s)"
    by (rule find_by_id_replaced [OF f]) (simp add: status_written_fields k)
  then show ?thesis
    by (simp add: get_invoice_by_id_def add_history_entry_def commit_invoice_def
          status_written_fields k)
qed


lemma issue_invoice_rejected:
  "get_invoice_by_id st iid = Some a \<Longrightarrow> inv_status a \<noteq> DRAFT \<Longrightarrow>
   issue_invoice env iid uid cid st =
     (if inv_user_id a \<noteq> uid
      then Inl (HTTPException 403 ''Not authorized to access this invoice'')
      else Inl (HTTPException 400
                  (''Can only issue draft invoices. Current status: '' @
                   status_value (inv_status a))), st)"
  by (simp add: issue_invoice_def get_invoice_cases)

lemma issue_invoice_draft_stored:
  "get_invoice_by_id st iid = Some a \<Longrightarrow> inv_status a = DRAFT \<Longrightarrow> inv_user_id a = uid \<Longrightarrow>
   get_invoice_by_id (snd (issue_invoice env iid uid cid st)) iid
     = Some (status_written (now (broker env)) a ISSUED)"
  using get_after_status_written [of st iid a]
  by (simp add: issue_invoice_def get_invoice_cases update_invoice_status_changed_eq Let_def
        get_invoice_by_id_def add_history_entry_def commit_invoice_def)

text \<open>
  C3 (as amended). \<open>issue_invoice\<close> on an invoice whose status is not DRAFT raises and
  leaves the whole state unchanged: called by the owner of the invoice it raises the
  illegal-state error (HTTP 400), called by any other user the authorization error of
  \<open>get_invoice\<close> (HTTP 403). In particular, after the owner has issued a DRAFT invoice,
  the invoice is stored as ISSUED, and a second \<open>issue_invoice\<close> by the owner raises the
  HTTP 400 and leaves the state, so the status ISSUED, unchanged.
\<close>

theorem issue_invoice_only_from_draft:
  "(get_invoice_by_id st iid = Some invoice \<and> inv_status invoice \<noteq> DRAFT \<longrightarrow>
      (inv_user_id invoice = uid \<longrightarrow>
         (\<exists>detail. issue_invoice env iid uid cid st = (Inl (HTTPException 400 detail), st))) \<and>
      (inv_user_id invoice \<noteq> uid \<longrightarrow>
         issue_invoice env iid uid cid st =
           (Inl (HTTPException 403 ''Not authorized to access this invoice''), st))) \<and>
   (get_invoice_by_id st iid = Some invoice \<and> inv_status invoice = DRAFT \<and>
    inv_user_id invoice = uid \<longrightarrow>
      (let st1 = snd (issue_invoice env iid uid cid st)
       in (\<exists>issued. get_invoice_by_id st1 iid = Some issued \<and> inv_status issued = ISSUED) \<and>
          (\<exists>detail. issue_invoice env' iid uid cid' st1 =
                      (Inl (HTTPException 400 detail), st1))))"
proof (intro conjI impI)
  assume a: "get_invoice_by_id st iid = Some invoice \<and> inv_status invoice \<noteq> DRAFT"
     and u: "inv_user_id invoice = uid"
  then show "\<exists>detail. issue_invoice env iid uid cid st = (Inl (HTTPException 400 detail), st)"
    by (simp add: issue_invoice_rejected)
next
  assume a: "get_invoice_by_id st iid = Some invoice \<and> inv_status invoice \<noteq> DRAFT"
     and u: "inv_user_id invoice \<noteq> uid"
  then show "issue_invoice env iid uid cid st =
           (Inl (HTTPException 403 ''Not authorized to access this invoice''), st)"
    by (simp add: issue_invoice_rejected)
next
  assume a: "get_invoice_by_id st iid = Some invoice \<and> inv_status invoice = DRAFT \<and>
    inv_user_id invoice = uid"
  define st1 where "st1 = snd (issue_invoice env iid uid cid st)"
  define b where "b = status_written (now (broker env)) invoice ISSUED"
  have g1: "get_invoice_by_id st1 iid = Some b"
    unfolding st1_def b_def using a by (simp add: issue_invoice_draft_stored)
  have sb: "inv_status b = ISSUED" and ub: "inv_user_id b = uid"
    using a by (simp_all add: b_def status_written_fields)
  have "\<exists>detail. issue_invoice env' iid uid cid' st1 = (Inl (HTTPException 400 detail), st1)"
    using issue_invoice_rejected [OF g1, of env' uid cid'] sb ub by simp
  with g1 sb show "let st1 = snd (issue_invoice env iid uid cid st)
       in (\<exists>issued. get_invoice_by_id st1 iid = Some issued \<and> inv_status issued = ISSUED) \<and>
          (\<exists>detail. issue_invoice env' iid uid cid' st1 =
                      (Inl (HTTPException 400 detail), st1))"
    unfolding st1_def [symmetric] Let_def by blast
qed

theorem issue_invoice_only_from_draft_witness:
  "get_invoice_by_id (ex_invoice_state ISSUED) 1 = Some (ex_invoice\<lparr>inv_status := ISSUED\<rparr>) \<and>
   inv_status (ex_invoice\<lparr>inv_status := ISSUED\<rparr>) \<noteq> DRAFT \<and>
   inv_user_id (ex_invoice\<lparr>inv_status := ISSUED\<rparr>) = ''alice'' \<and>
   (\<exists>detail. issue_invoice ex_invoice_env 1 ''alice'' None (ex_invoice_state ISSUED) =
               (Inl (HTTPException 400 detail), ex_invoice_state ISSUED)) \<and>
   inv_user_id (ex_invoice\<lparr>inv_status := ISSUED\<rparr>) \<noteq> ''bob'' \<and>
   issue_invoice ex_invoice_env 1 ''bob'' None (ex_invoice_state ISSUED) =
     (Inl (HTTPException 403 ''Not authorized to access this invoice''),
      ex_invoice_state ISSUED) \<and>
   get_invoice_by_id (ex_invoice_state DRAFT) 1 = Some (ex_invoice\<lparr>inv_status := DRAFT\<rparr>) \<and>
   inv_status (ex_invoice\<lparr>inv_status := DRAFT\<rparr>) = DRAFT \<and>
   (\<exists>issued. get_invoice_by_id
                (snd (issue_invoice ex_invoice_env 1 ''alice'' None (ex_invoice_state DRAFT))) 1
                = Some issued \<and> inv_status issued = ISSUED) \<and>
   (\<exists>detail. issue_invoice ex_invoice_env_later 1 ''alice'' None
                (snd (issue_invoice ex_invoice_env 1 ''alice'' None (ex_invoice_state DRAFT))) =
               (Inl (HTTPException 400 detail),
                snd (issue_invoice ex_invoice_env 1 ''alice'' None (ex_invoice_state DRAFT))))"
proof -
  have g1: "get_invoice_by_id (ex_invoice_state ISSUED) 1 = Some (ex_invoice\<lparr>inv_status := ISSUED\<rparr>)"
    by (simp add: get_invoice_by_id_def ex_invoice_state_def ex_invoice_def)
  have g2: "get_invoice_by_id (ex_invoice_state DRAFT) 1 = Some (ex_invoice\<lparr>inv_status := DRAFT\<rparr>)"
    by (simp add: get_invoice_by_id_def ex_invoice_state_def ex_invoice_def)
  have f: "inv_status (ex_invoice\<lparr>inv_status := ISSUED\<rparr>) \<noteq> DRAFT"
          "inv_user_id (ex_invoice\<lparr>inv_status := ISSUED\<rparr>) = ''alice''"
          "inv_user_id (ex_invoice\<lparr>inv_status := ISSUED\<rparr>) \<noteq> ''bob''"
          "inv_status (ex_invoice\<lparr>inv_status := DRAFT\<rparr>) = DRAFT"
          "inv_user_id (ex_invoice\<lparr>inv_status := DRAFT\<rparr>) = ''alice''"
    by (simp_all add: ex_invoice_def)
  show ?thesis
    using issue_invoice_only_from_draft
            [of "ex_invoice_state ISSUED" 1 "ex_invoice\<lparr>inv_status := ISSUED\<rparr>"
                "''alice''" ex_invoice_env None ex_invoice_env_later None]
          issue_invoice_only_from_draft
            [of "ex_invoice_state ISSUED" 1 "ex_invoice\<lparr>inv_status := ISSUED\<rparr>"
                "''bob''" ex_invoice_env None ex_invoice_env_later None]
          issue_invoice_only_from_draft
            [of "ex_invoice_state DRAFT" 1 "ex_invoice\<lparr>inv_status := DRAFT\<rparr>"
                "''alice''" ex_invoice_env None ex_invoice_env_later None]
          g1 g2 f
    by (simp add: Let_def)
qed

text \<open>
  The claim as stated fails for a caller who does not own the invoice: \<open>get_invoice\<close>
  runs before the status is looked at, so the user bob, issuing alice's ISSUED invoice,
  gets the authorization error (HTTP 403) and not the illegal-state error.
\<close>

theorem issue_invoice_by_other_user_counterexample:
  "map inv_status (invoices (ex_invoice_state ISSUED)) = [ISSUED] \<and>
   map inv_user_id (invoices (ex_invoice_state ISSUED)) = [''alice''] \<and>
   get_invoice_by_id (ex_invoice_state ISSUED) 1 = Some (ex_invoice\<lparr>inv_status := ISSUED\<rparr>) \<and>
   issue_invoice ex_invoice_env 1 ''bob'' None (ex_invoice_state ISSUED) =
     (Inl (HTTPException 403 ''Not authorized to access this invoice''),
      ex_invoice_state ISSUED)"
  by (simp add: issue_invoice_def get_invoice_def get_invoice_by_id_def ex_invoice_state_def
        ex_invoice_def)

lemma cancel_invoice_paid:
  "get_invoice_by_id st iid = Some a \<Longrightarrow> inv_status a = PAID \<Longrightarrow>
   cancel_invoice env iid uid cid st =
     (if inv_user_id a \<noteq> uid
      then Inl (HTTPException 403 ''Not authorized to access this invoice'')
      else Inl (HTTPException 400 ''Cannot cancel paid invoices''), st)"
  by (simp add: cancel_invoice_def get_invoice_cases)

lemma cancel_invoice_changes:
  "get_invoice_by_id st iid = Some a \<Longrightarrow> inv_user_id a = uid \<Longrightarrow>
   inv_status a \<noteq> PAID \<Longrightarrow> inv_status a \<noteq> CANCELLED \<Longrightarrow>
   fst (cancel_invoice env iid uid cid st) = Inr (status_written (now (broker env)) a CANCELLED) \<and>
   get_invoice_by_id (snd (cancel_invoice env iid uid cid st)) iid
     = Some (status_written (now (broker env)) a CANCELLED)"
  using get_after_status_written [of st iid a]
  by (simp add: cancel_invoice_def get_invoice_cases update_invoice_status_changed_eq Let_def
        get_invoice_by_id_def add_history_entry_def commit_invoice_def)

lemma cancel_invoice_again:
  "get_invoice_by_id st iid = Some a \<Longrightarrow> inv_status a = CANCELLED \<Longrightarrow>
   invoices (snd (cancel_invoice env iid uid cid st)) = invoices st \<and>
   items (snd (cancel_invoice env iid uid cid st)) = items st \<and>
   history (snd (cancel_invoice env iid uid cid st)) = history st \<and>
   (inv_user_id a = uid \<longrightarrow> fst (cancel_invoice env iid uid cid st) = Inr a)"
  by (simp add: cancel_invoice_def get_invoice_cases update_invoice_status_same)

lemma update_invoice_rejected:
  "get_invoice_by_id st iid = Some a \<Longrightarrow> inv_status a \<noteq> DRAFT \<Longrightarrow>
   update_invoice env iid uid upd st =
     (if inv_user_id a \<noteq> uid
      then Inl (HTTPException 403 ''Not authorized to access this invoice'')
      else Inl (HTTPException 400 ''Can only update draft invoices''), st)"
  by (simp add: update_invoice_def get_invoice_cases)

text \<open>
  C4 (as amended). \<open>cancel_invoice\<close> on a PAID invoice always raises and leaves the state
  unchanged (HTTP 400 for the owner). The owner's \<open>cancel_invoice\<close> on a DRAFT or ISSUED
  invoice succeeds and stores the status CANCELLED. On a CANCELLED invoice
  \<open>update_invoice\<close> and \<open>issue_invoice\<close> raise and leave the state unchanged, and
  \<open>cancel_invoice\<close> leaves the invoice rows, the items and the history as they are, so
  no service operation changes the status again; but a repeated \<open>cancel_invoice\<close> by the
  owner is not rejected: it returns the cancelled invoice.
\<close>

theorem cancel_invoice_rules:
  "(get_invoice_by_id st iid = Some invoice \<and> inv_status invoice = PAID \<longrightarrow>
      (\<exists>e. cancel_invoice env iid uid cid st = (Inl e, st)) \<and>
      (inv_user_id invoice = uid \<longrightarrow>
         cancel_invoice env iid uid cid st =
           (Inl (HTTPException 400 ''Cannot cancel paid invoices''), st))) \<and>
   (get_invoice_by_id st iid = Some invoice \<and> inv_user_id invoice = uid \<and>
    (inv_status invoice = DRAFT \<or> inv_status invoice = ISSUED) \<longrightarrow>
      (let r = cancel_invoice env iid uid cid st
       in \<exists>c. fst r = Inr c \<and> inv_status c = CANCELLED \<and>
               get_invoice_by_id (snd r) iid = Some c)) \<and>
   (get_invoice_by_id st iid = Some invoice \<and> inv_status invoice = CANCELLED \<longrightarrow>
      (\<exists>e. update_invoice env iid uid upd st = (Inl e, st)) \<and>
      (\<exists>e. issue_invoice env iid uid cid st = (Inl e, st)) \<and>
      invoices (snd (cancel_invoice env iid uid cid st)) = invoices st \<and>
      items (snd (cancel_invoice env iid uid cid st)) = items st \<and>
      history (snd (cancel_invoice env iid uid cid st)) = history st \<and>
      (inv_user_id invoice = uid \<longrightarrow>
         update_invoice env iid uid upd st =
           (Inl (HTTPException 400 ''Can only update draft invoices''), st) \<and>
         issue_invoice env iid uid cid st =
           (Inl (HTTPException 400 ''Can only issue draft invoices. Current status: cancelled''),
            st) \<and>
         fst (cancel_invoice env iid uid cid st) = Inr invoice))"
proof (intro conjI impI)
  assume a: "get_invoice_by_id st iid = Some invoice \<and> inv_status invoice = PAID"
  then show "\<exists>e. cancel_invoice env iid uid cid st = (Inl e, st)"
    by (simp add: cancel_invoice_paid)
  assume "inv_user_id invoice = uid"
  with a show "cancel_invoice env iid uid cid st =
           (Inl (HTTPException 400 ''Cannot cancel paid invoices''), st)"
    by (simp add: cancel_invoice_paid)
next
  assume a: "get_invoice_by_id st iid = Some invoice \<and> inv_user_id invoice = uid \<and>
    (inv_status invoice = DRAFT \<or> inv_status invoice = ISSUED)"
  then have "inv_status invoice \<noteq> PAID" "inv_status invoice \<noteq> CANCELLED" by auto
  with a have
    "fst (cancel_invoice env iid uid cid st)
       = Inr (status_written (now (broker env)) invoice CANCELLED) \<and>
     get_invoice_by_id (snd (cancel_invoice env iid uid cid st)) iid
       = Some (status_written (now (broker env)) invoice CANCELLED)"
    by (simp add: cancel_invoice_changes)
  then show "let r = cancel_invoice env iid uid cid st
       in \<exists>c. fst r = Inr c \<and> inv_status c = CANCELLED \<and>
               get_invoice_by_id (snd r) iid = Some c"
    by (simp add: Let_def status_written_fields)
next
  assume a: "get_invoice_by_id st iid = Some invoice \<and> inv_status invoice = CANCELLED"
  then show "\<exists>e. update_invoice env iid uid upd st = (Inl e, st)"
    by (simp add: update_invoice_rejected)
  from a show "\<exists>e. issue_invoice env iid uid cid st = (Inl e, st)"
    by (simp add: issue_invoice_rejected)
  from a show "invoices (snd (cancel_invoice env iid uid cid st)) = invoices st"
    by (simp add: cancel_invoice_again)
  from a show "items (snd (cancel_invoice env iid uid cid st)) = items st"
    by (simp add: cancel_invoice_again)
  from a show "history (snd (cancel_invoice env iid uid cid st)) = history st"
    by (simp add: cancel_invoice_again)
  assume u: "inv_user_id invoice = uid"
  with a show "update_invoice env iid uid upd st =
           (Inl (HTTPException 400 ''Can only update draft invoices''), st)"
    by (simp add: update_invoice_rejected)
  from a u show "issue_invoice env iid uid cid st =
           (Inl (HTTPException 400 ''Can only issue draft invoices. Current status: cancelled''),
            st)"
    by (simp add: issue_invoice_rejected)
  from a u show "fst (cancel_invoice env iid uid cid st) = Inr invoice"
    by (simp add: cancel_invoice_again)
qed


lemma ex_state_lookup:
  "get_invoice_by_id (ex_invoice_state s) 1 = Some (ex_invoice\<lparr>inv_status := s\<rparr>)"
  by (simp add: get_invoice_by_id_def ex_invoice_state_def ex_invoice_def)

lemma ex_invoice_fields:
  "inv_status (ex_invoice\<lparr>inv_status := s\<rparr>) = s"
  "inv_user_id (ex_invoice\<lparr>inv_status := s\<rparr>) = ''alice''"
  by (simp_all add: ex_invoice_def)

theorem cancel_invoice_rules_witness:
  "get_invoice_by_id (ex_invoice_state PAID) 1 = Some (ex_invoice\<lparr>inv_status := PAID\<rparr>) \<and>
   cancel_invoice ex_invoice_env 1 ''alice'' None (ex_invoice_state PAID) =
     (Inl (HTTPException 400 ''Cannot cancel paid invoices''), ex_invoice_state PAID) \<and>
   get_invoice_by_id (ex_invoice_state ISSUED) 1 = Some (ex_invoice\<lparr>inv_status := ISSUED\<rparr>) \<and>
   (\<exists>c. fst (cancel_invoice ex_invoice_env 1 ''alice'' None (ex_invoice_state ISSUED)) = Inr c \<and>
        inv_status c = CANCELLED \<and>
        get_invoice_by_id (snd (cancel_invoice ex_invoice_env 1 ''alice'' None
                                  (ex_invoice_state ISSUED))) 1 = Some c) \<and>
   get_invoice_by_id (ex_invoice_state CANCELLED) 1
     = Some (ex_invoice\<lparr>inv_status := CANCELLED\<rparr>) \<and>
   update_invoice ex_invoice_env 1 ''alice'' [Set_notes (Some ''late'')]
       (ex_invoice_state CANCELLED) =
     (Inl (HTTPException 400 ''Can only update draft invoices''), ex_invoice_state CANCELLED) \<and>
   fst (cancel_invoice ex_invoice_env 1 ''alice'' None (ex_invoice_state CANCELLED))
     = Inr (ex_invoice\<lparr>inv_status := CANCELLED\<rparr>)"
  using cancel_invoice_rules
          [of "ex_invoice_state PAID" 1 "ex_invoice\<lparr>inv_status := PAID\<rparr>"
              ex_invoice_env "''alice''" None "[Set_notes (Some ''late'')]"]
        cancel_invoice_rules
          [of "ex_invoice_state ISSUED" 1 "ex_invoice\<lparr>inv_status := ISSUED\<rparr>"
              ex_invoice_env "''alice''" None "[Set_notes (Some ''late'')]"]
        cancel_invoice_rules
          [of "ex_invoice_state CANCELLED" 1 "ex_invoice\<lparr>inv_status := CANCELLED\<rparr>"
              ex_invoice_env "''alice''" None "[Set_notes (Some ''late'')]"]
        ex_state_lookup [of PAID] ex_state_lookup [of ISSUED] ex_state_lookup [of CANCELLED]
  by (simp add: ex_invoice_fields Let_def)

lemma ex_cancelled_lookup:
  "get_invoice_by_id ex_cancelled_state 1
     = Some (ex_invoice\<lparr>inv_status := CANCELLED, inv_updated_at := 10\<rparr>)"
proof -
  have "get_invoice_by_id ex_cancelled_state 1
          = Some (status_written (now (broker ex_invoice_env))
                    (ex_invoice\<lparr>inv_status := DRAFT\<rparr>) CANCELLED)"
    unfolding ex_cancelled_state_def
    using cancel_invoice_changes [OF ex_state_lookup, of DRAFT "''alice''" ex_invoice_env None]
    by (simp add: ex_invoice_fields)
  moreover have "status_written (now (broker ex_invoice_env))
                    (ex_invoice\<lparr>inv_status := DRAFT\<rparr>) CANCELLED
                 = ex_invoice\<lparr>inv_status := CANCELLED, inv_updated_at := 10\<rparr>"
    by (simp add: status_written_def ex_invoice_env_def ex_broker_def ex_invoice_def)
  ultimately show ?thesis by simp
qed

lemma publish_event_sent_length:
  "(connected pub \<or> connect_ok env) \<Longrightarrow> publish_ok env \<Longrightarrow>
   length (sent (snd (publish_event env rk ed cid pub))) = Suc (length (sent pub)) \<and>
   connected (snd (publish_event env rk ed cid pub))"
  by (auto simp: publish_event_def publish_event_core_def connect_def broker_connect_def
        exchange_publish_def Let_def)

lemma cancel_invoice_publisher:
  "get_invoice_by_id st iid = Some a \<Longrightarrow> inv_user_id a = uid \<Longrightarrow> inv_status a \<noteq> PAID \<Longrightarrow>
   \<exists>d. inv_publisher (snd (cancel_invoice env iid uid cid st))
        = snd (publish_event (broker env) ''invoice.updated'' d cid (inv_publisher st))"
  by (cases "inv_status a = CANCELLED")
     (auto simp: cancel_invoice_def get_invoice_cases update_invoice_status_changed_eq
        update_invoice_status_same add_history_entry_def commit_invoice_def
        publish_invoice_updated_def)

lemma ex_cancelled_sent:
  "length (sent (inv_publisher ex_cancelled_state)) = 1 \<and>
   connected (inv_publisher ex_cancelled_state)"
proof -
  obtain d where d: "inv_publisher ex_cancelled_state
        = snd (publish_event (broker ex_invoice_env) ''invoice.updated'' d None
                 (inv_publisher (ex_invoice_state DRAFT)))"
    unfolding ex_cancelled_state_def
    using cancel_invoice_publisher [OF ex_state_lookup, of DRAFT "''alice''" ex_invoice_env None]
    by (auto simp: ex_invoice_fields)
  have "connect_ok (broker ex_invoice_env)" "publish_ok (broker ex_invoice_env)"
    by (simp_all add: ex_invoice_env_def ex_broker_def)
  then show ?thesis
    unfolding d
    using publish_event_sent_length
            [of "inv_publisher (ex_invoice_state DRAFT)" "broker ex_invoice_env"
                "''invoice.updated''" d None]
    by (simp add: ex_invoice_state_def ex_publisher_def)
qed

text \<open>
  The claim as stated fails on a repeated cancellation: after the owner has cancelled a
  DRAFT invoice, a second \<open>cancel_invoice\<close> is accepted (it returns the invoice) and a
  second \<open>invoice.updated\<close> message is sent.
\<close>

theorem cancel_accepted_on_cancelled_counterexample:
  "get_invoice_by_id ex_cancelled_state 1
     = Some (ex_invoice\<lparr>inv_status := CANCELLED, inv_updated_at := 10\<rparr>) \<and>
   fst (cancel_invoice ex_invoice_env_later 1 ''alice'' None ex_cancelled_state)
     = Inr (ex_invoice\<lparr>inv_status := CANCELLED, inv_updated_at := 10\<rparr>) \<and>
   length (sent (inv_publisher
             (snd (cancel_invoice ex_invoice_env_later 1 ''alice'' None ex_cancelled_state)))) = 2"
proof -
  let ?c = "ex_invoice\<lparr>inv_status := CANCELLED, inv_updated_at := 10\<rparr>"
  have c: "inv_status ?c = CANCELLED" "inv_user_id ?c = ''alice''"
    by (simp_all add: ex_invoice_def)
  have 1: "fst (cancel_invoice ex_invoice_env_later 1 ''alice'' None ex_cancelled_state) = Inr ?c"
    using cancel_invoice_again [OF ex_cancelled_lookup c(1), of ex_invoice_env_later "''alice''" None] c(2)
    by simp
  obtain d where d: "inv_publisher
        (snd (cancel_invoice ex_invoice_env_later 1 ''alice'' None ex_cancelled_state))
        = snd (publish_event (broker ex_invoice_env_later) ''invoice.updated'' d None
                 (inv_publisher ex_cancelled_state))"
    using cancel_invoice_publisher [OF ex_cancelled_lookup, of "''alice''" ex_invoice_env_later None] c
    by auto
  have "publish_ok (broker ex_invoice_env_later)"
    by (simp add: ex_invoice_env_later_def ex_broker_later_def)
  then have 2: "length (sent (inv_publisher
             (snd (cancel_invoice ex_invoice_env_later 1 ''alice'' None ex_cancelled_state)))) = 2"
    unfolding d
    using publish_event_sent_length
            [of "inv_publisher ex_cancelled_state" "broker ex_invoice_env_later"
                "''invoice.updated''" d None] ex_cancelled_sent
    by simp
  show ?thesis using ex_cancelled_lookup 1 2 by simp
qed

subsection \<open>Invoice totals and payment events\<close>



lemma monetary_total_invariant:
  "monetary a = monetary b \<Longrightarrow> total_invariant a = total_invariant b"
  by (simp add: monetary_def total_invariant_def)

























text \<open>
  The invoice number and its column. A timestamp of ten digits gives an invoice number of
  23 characters, and the column is a \<open>String(20)\<close>: a database that enforces the length
  rejects the INSERT, and \<open>create_invoice\<close> raises with nothing stored.
\<close>

lemma create_invoice_number_rejected:
  "db_enforces_lengths env \<Longrightarrow> 20 < length (generate_invoice_number env) \<Longrightarrow>
   create_invoice env uid cust cname cemail caddr sub tax disc its nts due status cid st
     = (Inl (DataError ''invoices''), st)"
  by (simp add: create_invoice_def repo_create_invoice_def invoice_row_fits_def Let_def)

lemma create_invoice_2023_example:
  "length (generate_invoice_number ex_invoice_env_2023) = 23 \<and>
   create_invoice ex_invoice_env_2023 ''alice'' ''cust-2'' ''Dave'' ''dave@example.com'' None
     200 20 10 [] None None DRAFT None (ex_invoice_state DRAFT)
   = (Inl (DataError ''invoices''), ex_invoice_state DRAFT)"
proof -
  have l: "length (generate_invoice_number ex_invoice_env_2023) = 23"
    by (simp add: generate_invoice_number_def ex_invoice_env_2023_def string_of_nat.simps)
  have e: "db_enforces_lengths ex_invoice_env_2023"
    by (simp add: ex_invoice_env_2023_def)
  from l have "20 < length (generate_invoice_number ex_invoice_env_2023)" by simp
  from create_invoice_number_rejected [OF e this] l show ?thesis by simp
qed

text \<open>
  C2. \<open>handle_payment_received\<close> does not apply the payment: its body only logs. For the
  example invoice, ISSUED with total 105, the \<open>payment_received\<close> event of a completed
  payment of 105 leaves the state as it was: the status is still ISSUED and no paid date
  is recorded, where the claim (and the docstring of the handler) call for PAID with a
  paid date.
\<close>

theorem handle_payment_received_leaves_invoice_unpaid:
  "handle_payment_received ex_payment_received (ex_invoice_state ISSUED) = ex_invoice_state ISSUED \<and>
   map total_amount (invoices (ex_invoice_state ISSUED)) = [105] \<and>
   map inv_status (invoices (handle_payment_received ex_payment_received (ex_invoice_state ISSUED)))
     = [ISSUED] \<and>
   map paid_date (invoices (handle_payment_received ex_payment_received (ex_invoice_state ISSUED)))
     = [None]"
  by (simp add: handle_payment_received_def ex_invoice_state_def ex_invoice_def)

subsection \<open>Payment webhooks\<close>

lemma update_payment_status_same:
  "update_payment_status t p (pay_status p) msg None st =
     (p\<lparr>status_message := (if truthy msg then msg else status_message p),
        payment_date := (if pay_status p = COMPLETED \<and> payment_date p = None then Some t
                         else payment_date p),
        pay_updated_at := t\<rparr>,
      commit_payment
        (p\<lparr>status_message := (if truthy msg then msg else status_message p),
           payment_date := (if pay_status p = COMPLETED \<and> payment_date p = None then Some t
                            else payment_date p),
           pay_updated_at := t\<rparr>) st)"
  by (simp add: update_payment_status_def Let_def)

lemma handle_webhook_event_terminal:
  assumes "truthy (wh_transaction_id ev)"
      and "get_payment_by_transaction_reference st (the (wh_transaction_id ev)) = Some p"
      and "webhook_outcome (wh_event_type ev) = Some (pay_status p)"
  shows "fst (handle_webhook_event env ev st) = Webhook_success"
    and "payments (snd (handle_webhook_event env ev st))
           = map (\<lambda>q. if pay_id q = pay_id p then redelivered (now (pay_broker env)) ev p else q)
                 (payments st)"
    and "attempts (snd (handle_webhook_event env ev st)) = attempts st"
    and "pay_publisher (snd (handle_webhook_event env ev st)) =
           (if pay_status p = COMPLETED
            then snd (publish_payment_received (pay_broker env)
                        (received_payload (now (pay_broker env))
                           (redelivered (now (pay_broker env)) ev p) (pay_user_id p))
                        None (pay_publisher st))
            else if pay_status p = FAILED
            then snd (publish_payment_failed (pay_broker env)
                        (failed_payload (redelivered (now (pay_broker env)) ev p)
                           (webhook_error_message ev) (pay_user_id p))
                        None (pay_publisher st))
            else pay_publisher st)"
proof -
  consider (s) "wh_event_type ev = ''payment.succeeded''" "pay_status p = COMPLETED"
    | (f) "wh_event_type ev = ''payment.failed''" "pay_status p = FAILED"
    | (r) "wh_event_type ev = ''payment.refunded''" "pay_status p = REFUNDED"
    using assms(3) by (auto simp: webhook_outcome_def split: if_splits)
  then have
    "fst (handle_webhook_event env ev st) = Webhook_success \<and>
     payments (snd (handle_webhook_event env ev st))
           = map (\<lambda>q. if pay_id q = pay_id p then redelivered (now (pay_broker env)) ev p else q)
                 (payments st) \<and>
     attempts (snd (handle_webhook_event env ev st)) = attempts st \<and>
     pay_publisher (snd (handle_webhook_event env ev st)) =
           (if pay_status p = COMPLETED
            then snd (publish_payment_received (pay_broker env)
                        (received_payload (now (pay_broker env))
                           (redelivered (now (pay_broker env)) ev p) (pay_user_id p))
                        None (pay_publisher st))
            else if pay_status p = FAILED
            then snd (publish_payment_failed (pay_broker env)
                        (failed_payload (redelivered (now (pay_broker env)) ev p)
                           (webhook_error_message ev) (pay_user_id p))
                        None (pay_publisher st))
            else pay_publisher st)"
  proof cases
    case s
    have "update_payment_status (now (pay_broker env)) p COMPLETED
            (Some ''Payment confirmed by gateway'') None st
          = (redelivered (now (pay_broker env)) ev p,
             commit_payment (redelivered (now (pay_broker env)) ev p) st)"
      using update_payment_status_same [of "now (pay_broker env)" p
              "Some ''Payment confirmed by gateway''" st] s
      by (simp add: redelivered_def webhook_status_message_def)
    with assms(1,2) s show ?thesis
      by (simp add: handle_webhook_event_def commit_payment_def redelivered_def)
  next
    case f
    have "update_payment_status (now (pay_broker env)) p FAILED (webhook_error_message ev) None st
          = (redelivered (now (pay_broker env)) ev p,
             commit_payment (redelivered (now (pay_broker env)) ev p) st)"
      using update_payment_status_same [of "now (pay_broker env)" p
              "webhook_error_message ev" st] f
      by (simp add: redelivered_def webhook_status_message_def)
    with assms(1,2) f show ?thesis
      by (simp add: handle_webhook_event_def commit_payment_def redelivered_def)
  next
    case r
    have "update_payment_status (now (pay_broker env)) p REFUNDED (Some ''Payment refunded'') None st
          = (redelivered (now (pay_broker env)) ev p,
             commit_payment (redelivered (now (pay_broker env)) ev p) st)"
      using update_payment_status_same [of "now (pay_broker env)" p
              "Some ''Payment refunded''" st] r
      by (simp add: redelivered_def webhook_status_message_def)
    with assms(1,2) r show ?thesis
      by (simp add: handle_webhook_event_def commit_payment_def redelivered_def)
  qed
  then show "fst (handle_webhook_event env ev st) = Webhook_success"
    and "payments (snd (handle_webhook_event env ev st))
           = map (\<lambda>q. if pay_id q = pay_id p then redelivered (now (pay_broker env)) ev p else q)
                 (payments st)"
    and "attempts (snd (handle_webhook_event env ev st)) = attempts st"
    and "pay_publisher (snd (handle_webhook_event env ev st)) =
           (if pay_status p = COMPLETED
            then snd (publish_payment_received (pay_broker env)
                        (received_payload (now (pay_broker env))
                           (redelivered (now (pay_broker env)) ev p) (pay_user_id p))
                        None (pay_publisher st))
            else if pay_status p = FAILED
            then snd (publish_payment_failed (pay_broker env)
                        (failed_payload (redelivered (now (pay_broker env)) ev p)
                           (webhook_error_message ev) (pay_user_id p))
                        None (pay_publisher st))
            else pay_publisher st)"
    by simp_all
qed


text \<open>
  C5 (as amended). For a payment found by the webhook's transaction id whose status is
  already the one the webhook reports (COMPLETED, FAILED or REFUNDED), a repeated
  delivery answers success and keeps the status, the amount, the references and a payment
  date that is set; but it is not a no-op: it writes \<open>updated_at\<close>, overwrites the status
  message with the webhook's (when that is not empty), and for a completed or failed
  payment publishes the \<open>payment.received\<close> or \<open>payment.failed\<close> event again.
\<close>

theorem webhook_redelivery_effect:
  "truthy (wh_transaction_id ev) \<and>
   get_payment_by_transaction_reference st (the (wh_transaction_id ev)) = Some p \<and>
   webhook_outcome (wh_event_type ev) = Some (pay_status p) \<longrightarrow>
     (let r = handle_webhook_event env ev st;
          p' = redelivered (now (pay_broker env)) ev p
      in fst r = Webhook_success \<and>
         payments (snd r) = map (\<lambda>q. if pay_id q = pay_id p then p' else q) (payments st) \<and>
         attempts (snd r) = attempts st \<and>
         pay_status p' = pay_status p \<and>
         pay_amount p' = pay_amount p \<and>
         transaction_reference p' = transaction_reference p \<and>
         external_reference p' = external_reference p \<and>
         (payment_date p \<noteq> None \<longrightarrow> payment_date p' = payment_date p) \<and>
         pay_updated_at p' = now (pay_broker env) \<and>
         status_message p' =
           (if truthy (webhook_status_message ev) then webhook_status_message ev
            else status_message p) \<and>
         (pay_status p = REFUNDED \<longrightarrow> pay_publisher (snd r) = pay_publisher st) \<and>
         (pay_status p = COMPLETED \<longrightarrow>
            pay_publisher (snd r) =
              snd (publish_payment_received (pay_broker env)
                     (received_payload (now (pay_broker env)) p' (pay_user_id p))
                     None (pay_publisher st))) \<and>
         (pay_status p = FAILED \<longrightarrow>
            pay_publisher (snd r) =
              snd (publish_payment_failed (pay_broker env)
                     (failed_payload p' (webhook_error_message ev) (pay_user_id p))
                     None (pay_publisher st))))"
proof
  assume a: "truthy (wh_transaction_id ev) \<and>
   get_payment_by_transaction_reference st (the (wh_transaction_id ev)) = Some p \<and>
   webhook_outcome (wh_event_type ev) = Some (pay_status p)"
  then have t: "truthy (wh_transaction_id ev)"
    and g: "get_payment_by_transaction_reference st (the (wh_transaction_id ev)) = Some p"
    and w: "webhook_outcome (wh_event_type ev) = Some (pay_status p)"
    by simp_all
  note h = handle_webhook_event_terminal [OF t g w, of env]
  show "let r = handle_webhook_event env ev st;
          p' = redelivered (now (pay_broker env)) ev p
      in fst r = Webhook_success \<and>
         payments (snd r) = map (\<lambda>q. if pay_id q = pay_id p then p' else q) (payments st) \<and>
         attempts (snd r) = attempts st \<and>
         pay_status p' = pay_status p \<and>
         pay_amount p' = pay_amount p \<and>
         transaction_reference p' = transaction_reference p \<and>
         external_reference p' = external_reference p \<and>
         (payment_date p \<noteq> None \<longrightarrow> payment_date p' = payment_date p) \<and>
         pay_updated_at p' = now (pay_broker env) \<and>
         status_message p' =
           (if truthy (webhook_status_message ev) then webhook_status_message ev
            else status_message p) \<and>
         (pay_status p = REFUNDED \<longrightarrow> pay_publisher (snd r) = pay_publisher st) \<and>
         (pay_status p = COMPLETED \<longrightarrow>
            pay_publisher (snd r) =
              snd (publish_payment_received (pay_broker env)
                     (received_payload (now (pay_broker env)) p' (pay_user_id p))
                     None (pay_publisher st))) \<and>
         (pay_status p = FAILED \<longrightarrow>
            pay_publisher (snd r) =
              snd (publish_payment_failed (pay_broker env)
                     (failed_payload p' (webhook_error_message ev) (pay_user_id p))
                     None (pay_publisher st)))"
    unfolding Let_def h by (simp add: redelivered_def)
qed

lemma ex_payment_lookup:
  "get_payment_by_transaction_reference ex_payment_state ''TXN-5-1'' = Some ex_payment"
  by (simp add: get_payment_by_transaction_reference_def ex_payment_state_def ex_payment_def)

lemma ex_webhook_facts:
  "truthy (wh_transaction_id ex_webhook)"
  "the (wh_transaction_id ex_webhook) = ''TXN-5-1''"
  "webhook_outcome (wh_event_type ex_webhook) = Some COMPLETED"
  by (simp_all add: ex_webhook_def webhook_outcome_def)

lemma ex_webhook_state_payments:
  "payments ex_webhook_state = [redelivered 10 ex_webhook ex_payment]"
proof -
  have "payments ex_webhook_state
        = map (\<lambda>q. if pay_id q = pay_id ex_payment
                    then redelivered (now (pay_broker ex_payment_env)) ex_webhook ex_payment else q)
              (payments ex_payment_state)"
    unfolding ex_webhook_state_def
    by (rule handle_webhook_event_terminal(2))
       (simp_all add: ex_webhook_facts ex_payment_lookup, simp add: ex_payment_def)
  then show ?thesis
    by (simp add: ex_payment_state_def ex_payment_env_def ex_broker_def)
qed


lemma publish_sent_length:
  "(connected pub \<or> connect_ok env) \<Longrightarrow> publish_ok env \<Longrightarrow>
   length (sent (snd (publish_payment_received env d cid pub))) = Suc (length (sent pub)) \<and>
   connected (snd (publish_payment_received env d cid pub))"
  unfolding publish_payment_received_def by (rule publish_event_sent_length)

lemma ex_redelivered_fields:
  "pay_id (redelivered t ex_webhook ex_payment) = 1"
  "pay_status (redelivered t ex_webhook ex_payment) = COMPLETED"
  "transaction_reference (redelivered t ex_webhook ex_payment) = Some ''TXN-5-1''"
  "pay_updated_at (redelivered t ex_webhook ex_payment) = t"
  "status_message (redelivered t ex_webhook ex_payment) = Some ''Payment confirmed by gateway''"
  by (simp_all add: redelivered_def ex_payment_def ex_webhook_def webhook_status_message_def)

lemma ex_webhook_state_lookup:
  "get_payment_by_transaction_reference ex_webhook_state ''TXN-5-1''
     = Some (redelivered 10 ex_webhook ex_payment)"
  by (simp add: get_payment_by_transaction_reference_def ex_webhook_state_payments
        ex_redelivered_fields)

lemma ex_webhook_state_publisher:
  "length (sent (pay_publisher ex_webhook_state)) = 1 \<and> connected (pay_publisher ex_webhook_state)"
proof -
  have "pay_publisher ex_webhook_state =
          snd (publish_payment_received (pay_broker ex_payment_env)
                 (received_payload (now (pay_broker ex_payment_env))
                    (redelivered (now (pay_broker ex_payment_env)) ex_webhook ex_payment)
                    (pay_user_id ex_payment))
                 None (pay_publisher ex_payment_state))"
    unfolding ex_webhook_state_def
    using handle_webhook_event_terminal(4)
            [of ex_webhook ex_payment_state ex_payment ex_payment_env]
    by (simp add: ex_webhook_facts ex_payment_lookup) (simp add: ex_payment_def)
  moreover have "connect_ok (pay_broker ex_payment_env)" "publish_ok (pay_broker ex_payment_env)"
    by (simp_all add: ex_payment_env_def ex_broker_def)
  ultimately show ?thesis
    using publish_sent_length [of "pay_publisher ex_payment_state" "pay_broker ex_payment_env"]
    by (simp add: ex_payment_state_def ex_publisher_def)
qed

text \<open>
  The claim as stated fails: the example payment is COMPLETED and has received the
  \<open>payment.succeeded\<close> webhook once (at time 10). Delivering the same webhook again (at
  time 20) answers success, but the payment row is written again (\<open>updated_at\<close> moves
  from 10 to 20) and a second \<open>payment.received\<close> message is sent.
\<close>

theorem webhook_redelivery_counterexample:
  "map pay_status (payments ex_webhook_state) = [COMPLETED] \<and>
   map pay_updated_at (payments ex_webhook_state) = [10] \<and>
   length (sent (pay_publisher ex_webhook_state)) = 1 \<and>
   fst (handle_webhook_event ex_payment_env_later ex_webhook ex_webhook_state) = Webhook_success \<and>
   map pay_updated_at
     (payments (snd (handle_webhook_event ex_payment_env_later ex_webhook ex_webhook_state))) = [20] \<and>
   length (sent (pay_publisher
             (snd (handle_webhook_event ex_payment_env_later ex_webhook ex_webhook_state)))) = 2"
proof -
  let ?p = "redelivered 10 ex_webhook ex_payment"
  have t: "truthy (wh_transaction_id ex_webhook)" by (rule ex_webhook_facts)
  have g: "get_payment_by_transaction_reference ex_webhook_state (the (wh_transaction_id ex_webhook))
             = Some ?p"
    by (simp add: ex_webhook_facts ex_webhook_state_lookup)
  have w: "webhook_outcome (wh_event_type ex_webhook) = Some (pay_status ?p)"
    by (simp add: ex_webhook_facts ex_redelivered_fields)
  note h = handle_webhook_event_terminal [OF t g w, of ex_payment_env_later]
  have n: "now (pay_broker ex_payment_env_later) = 20"
          "publish_ok (pay_broker ex_payment_env_later)"
    by (simp_all add: ex_payment_env_later_def ex_broker_later_def)
  have 1: "map pay_status (payments ex_webhook_state) = [COMPLETED]"
          "map pay_updated_at (payments ex_webhook_state) = [10]"
    by (simp_all add: ex_webhook_state_payments ex_redelivered_fields)
  have 2: "map pay_updated_at
     (payments (snd (handle_webhook_event ex_payment_env_later ex_webhook ex_webhook_state))) = [20]"
    unfolding h(2) by (simp add: ex_webhook_state_payments n redelivered_def)
  have 3: "length (sent (pay_publisher
             (snd (handle_webhook_event ex_payment_env_later ex_webhook ex_webhook_state)))) = 2"
    unfolding h(4)
    using publish_sent_length [of "pay_publisher ex_webhook_state" "pay_broker ex_payment_env_later"]
          ex_webhook_state_publisher n(2)
    by (simp add: ex_redelivered_fields)
  show ?thesis using 1 2 3 h(1) ex_webhook_state_publisher by simp
qed

theorem webhook_redelivery_effect_witness:
  "truthy (wh_transaction_id ex_webhook) \<and>
   get_payment_by_transaction_reference ex_webhook_state (the (wh_transaction_id ex_webhook))
     = Some (redelivered 10 ex_webhook ex_payment) \<and>
   webhook_outcome (wh_event_type ex_webhook)
     = Some (pay_status (redelivered 10 ex_webhook ex_payment)) \<and>
   payment_date (redelivered 10 ex_webhook ex_payment) \<noteq> None \<and>
   pay_status (redelivered 10 ex_webhook ex_payment) = COMPLETED \<and>
   fst (handle_webhook_event ex_payment_env_later ex_webhook ex_webhook_state) = Webhook_success \<and>
   payments (snd (handle_webhook_event ex_payment_env_later ex_webhook ex_webhook_state))
     = [redelivered 20 ex_webhook (redelivered 10 ex_webhook ex_payment)] \<and>
   payment_date (redelivered 20 ex_webhook (redelivered 10 ex_webhook ex_payment)) = Some 5"
proof -
  let ?p = "redelivered 10 ex_webhook ex_payment"
  have t: "truthy (wh_transaction_id ex_webhook)" by (rule ex_webhook_facts)
  have g: "get_payment_by_transaction_reference ex_webhook_state (the (wh_transaction_id ex_webhook))
             = Some ?p"
    by (simp add: ex_webhook_facts ex_webhook_state_lookup)
  have w: "webhook_outcome (wh_event_type ex_webhook) = Some (pay_status ?p)"
    by (simp add: ex_webhook_facts ex_redelivered_fields)
  have d: "payment_date ?p = Some 5" "pay_status ?p = COMPLETED"
    by (simp_all add: redelivered_def ex_payment_def)
  have n: "now (pay_broker ex_payment_env_later) = 20"
    by (simp add: ex_payment_env_later_def ex_broker_later_def)
  show ?thesis
    using webhook_redelivery_effect [of ex_webhook ex_webhook_state ?p ex_payment_env_later]
          t g w d
    by (simp add: Let_def n ex_webhook_state_payments)
qed

subsection \<open>Payment creation\<close>

lemma publish_event_accepted:
  "(connected pub \<or> connect_ok env) \<Longrightarrow> publish_ok env \<Longrightarrow>
   sent (snd (publish_event env rk ed cid pub))
     = sent pub @ [(rk, make_message (make_event None env ed cid) cid)]"
  by (auto simp: publish_event_def publish_event_core_def connect_def broker_connect_def
        exchange_publish_def Let_def)

lemma payment_rows:
  "pay_id (processing_payment t k u i n a m d) = k"
  "pay_status (processing_payment t k u i n a m d) = PROCESSING"
  "status_message (processing_payment t k u i n a m d) = None"
  "pay_id (failed_payment t k u i n a m d err) = k"
  "pay_status (failed_payment t k u i n a m d err) = FAILED"
  "status_message (failed_payment t k u i n a m d err) = (if truthy err then err else None)"
  "payment_date (failed_payment t k u i n a m d err) = None"
  "pay_amount (failed_payment t k u i n a m d err) = a"
  by (simp_all add: processing_payment_def failed_payment_def)

lemma repo_create_payment_accepted:
  assumes "payment_accepted env u i n cid st"
  shows "repo_create_payment (pay_db_enforces_lengths env) (now (pay_broker env)) u i n a
           ''USD'' m d PROCESSING st
         = (Inr (processing_payment (now (pay_broker env)) (next_payment_id st) u i n a m d),
            st\<lparr>payments := payments st @
                  [processing_payment (now (pay_broker env)) (next_payment_id st) u i n a m d],
               next_payment_id := next_payment_id st + 1\<rparr>)"
  using assms
  by (auto simp: repo_create_payment_def payment_accepted_def payment_row_fits_def
        processing_payment_def Let_def)

lemma record_payment_attempt_accepted:
  assumes "payment_accepted env u i n cid st"
  shows "record_payment_attempt (pay_db_enforces_lengths env) t k req resp ok err cid st'
         = Inr (st'\<lparr>attempts := attempts st' @
                   [\<lparr> att_payment_id = k, att_gateway_request = req,
                      att_gateway_response = resp, att_success = (if ok then 1 else 0),
                      att_error_message = err, att_correlation_id = cid,
                      att_created_at = t \<rparr>]\<rparr>)"
  using assms
  by (auto simp: record_payment_attempt_def payment_accepted_def split: option.splits)

lemma update_payment_status_failed_new:
  "update_payment_status t (processing_payment t k u i n a m d) FAILED err None st
   = (failed_payment t k u i n a m d err,
      commit_payment (failed_payment t k u i n a m d err) st)"
  by (simp add: update_payment_status_def processing_payment_def failed_payment_def Let_def)

text \<open>
  A gateway call that returns a failure: the payment is stored as FAILED, its status
  message is the gateway's error message when that is not empty, one attempt with success
  0 is recorded, and \<open>payment_failed\<close> is handed to the publisher.
\<close>

lemma create_payment_failure:
  assumes "pmethod \<in> set payment_methods"
      and "payment_accepted env uid iid num cid st"
      and "process_payment env details = Inr response"
      and "\<not> gw_success response"
  shows "fst (create_payment env uid iid num amount pmethod details cid st)
           = Inr (failed_payment (now (pay_broker env)) (next_payment_id st) uid iid num
                    (float64 amount) pmethod details (gw_error_message response))"
    and "payments (snd (create_payment env uid iid num amount pmethod details cid st))
           = map (\<lambda>q. if pay_id q = next_payment_id st
                       then failed_payment (now (pay_broker env)) (next_payment_id st) uid iid
                              num (float64 amount) pmethod details (gw_error_message response)
                       else q) (payments st) @
             [failed_payment (now (pay_broker env)) (next_payment_id st) uid iid num
                (float64 amount) pmethod details (gw_error_message response)]"
    and "attempts (snd (create_payment env uid iid num amount pmethod details cid st))
           = attempts st @
             [\<lparr> att_payment_id = next_payment_id st,
                att_gateway_request = gateway_request (float64 amount) pmethod iid num,
                att_gateway_response = response, att_success = 0,
                att_error_message = gw_error_message response, att_correlation_id = cid,
                att_created_at = now (pay_broker env) \<rparr>]"
    and "pay_publisher (snd (create_payment env uid iid num amount pmethod details cid st))
           = snd (publish_payment_failed (pay_broker env)
                    (failed_payload
                       (failed_payment (now (pay_broker env)) (next_payment_id st) uid iid num
                          (float64 amount) pmethod details (gw_error_message response))
                       (gw_error_message response) uid)
                    cid (pay_publisher st))"
  using assms(1,3,4)
  by (simp_all add: create_payment_def repo_create_payment_accepted [OF assms(2)]
        record_payment_attempt_accepted [OF assms(2)] update_payment_status_failed_new
        payment_rows commit_payment_def)

text \<open>
  When the gateway call itself raises (the mock gateway given a card number that is not
  a string), the exception leaves \<open>create_payment\<close>: the payment row stays PROCESSING,
  no attempt is recorded and nothing is published.
\<close>

lemma create_payment_gateway_raises:
  assumes "pmethod \<in> set payment_methods"
      and "payment_accepted env uid iid num cid st"
      and "process_payment env details = Inl e"
  shows "fst (create_payment env uid iid num amount pmethod details cid st) = Inl e"
    and "attempts (snd (create_payment env uid iid num amount pmethod details cid st)) = attempts st"
    and "payments (snd (create_payment env uid iid num amount pmethod details cid st))
           = payments st @
             [processing_payment (now (pay_broker env)) (next_payment_id st) uid iid num
                (float64 amount) pmethod details]"
    and "pay_publisher (snd (create_payment env uid iid num amount pmethod details cid st))
           = pay_publisher st"
  using assms(1,3)
  by (simp_all add: create_payment_def repo_create_payment_accepted [OF assms(2)])

lemma mock_decline:
  "use_mock_payment_gateway env \<Longrightarrow> dict_get details ''card_number'' (JStr []) = JStr cardno \<Longrightarrow>
   ends_with cardno ''0000'' \<Longrightarrow> process_payment env details = Inr ex_declined"
  by (simp add: process_payment_def mock_process_payment_def ex_declined_def)

lemma ex_mock_declines: "process_payment ex_payment_env ex_declined_details = Inr ex_declined"
  by (rule mock_decline [where cardno = "''4000000000000000''"])
     (simp_all add: ex_payment_env_def ex_declined_details_def dict_get_def ends_with_def)

lemma ex_payment_accepted:
  "payment_accepted ex_payment_env ''alice'' 1 ''INV-1-00000001'' None ex_empty_payment_state"
  "payment_accepted ex_payment_env_real ''alice'' 1 ''INV-1-00000001'' None ex_empty_payment_state"
  by (simp_all add: payment_accepted_def ex_payment_env_def ex_payment_env_real_def ex_broker_def
        ex_empty_payment_state_def string_of_nat.simps)

lemma ex_credit_card: "''credit_card'' \<in> set payment_methods"
  by (simp add: payment_methods_def)

text \<open>
  A card number ending in 0000 is declined by the mock gateway: the payment is stored as
  FAILED with the message "Card was declined", one attempt with success 0 is recorded and
  one \<open>payment.failed\<close> message is sent.
\<close>

lemma create_payment_declined_example:
  "map pay_status
     (payments (snd (create_payment ex_payment_env ''alice'' 1 ''INV-1-00000001'' 105
                       ''credit_card'' ex_declined_details None ex_empty_payment_state)))
     = [FAILED] \<and>
   map status_message
     (payments (snd (create_payment ex_payment_env ''alice'' 1 ''INV-1-00000001'' 105
                       ''credit_card'' ex_declined_details None ex_empty_payment_state)))
     = [Some ''Card was declined''] \<and>
   map att_success
     (attempts (snd (create_payment ex_payment_env ''alice'' 1 ''INV-1-00000001'' 105
                       ''credit_card'' ex_declined_details None ex_empty_payment_state)))
     = [0] \<and>
   map fst
     (sent (pay_publisher
        (snd (create_payment ex_payment_env ''alice'' 1 ''INV-1-00000001'' 105
                ''credit_card'' ex_declined_details None ex_empty_payment_state))))
     = [''payment.failed'']"
proof -
  have f: "\<not> gw_success ex_declined" "gw_error_message ex_declined = Some ''Card was declined''"
    by (simp_all add: ex_declined_def)
  have e: "connect_ok (pay_broker ex_payment_env)" "publish_ok (pay_broker ex_payment_env)"
    by (simp_all add: ex_payment_env_def ex_broker_def)
  have s: "payments ex_empty_payment_state = []" "attempts ex_empty_payment_state = []"
          "sent (pay_publisher ex_empty_payment_state) = []"
    by (simp_all add: ex_empty_payment_state_def ex_publisher_def)
  note c = create_payment_failure [OF ex_credit_card ex_payment_accepted(1) ex_mock_declines f(1),
             of 105]
  show ?thesis
    unfolding c publish_payment_failed_def
    using e by (simp add: s payment_rows f publish_event_accepted)
qed

text \<open>
  A failure that carries no error message (the real gateway answering HTTP 402 with a
  body without an \<open>error\<close> entry) is stored as FAILED with no status message:
  \<open>update_payment_status\<close> writes the message only when it is not empty.
\<close>

lemma create_payment_without_message_example:
  "process_payment ex_payment_env_real ex_card_details
     = Inr \<lparr> gw_success = False, gw_error_code = None, gw_error_message = None,
             gw_transaction_id = None \<rparr> \<and>
   map pay_status
     (payments (snd (create_payment ex_payment_env_real ''alice'' 1 ''INV-1-00000001'' 105
                       ''credit_card'' ex_card_details None ex_empty_payment_state)))
     = [FAILED] \<and>
   map status_message
     (payments (snd (create_payment ex_payment_env_real ''alice'' 1 ''INV-1-00000001'' 105
                       ''credit_card'' ex_card_details None ex_empty_payment_state)))
     = [None]"
proof -
  let ?resp = "\<lparr> gw_success = False, gw_error_code = None, gw_error_message = None,
                 gw_transaction_id = None \<rparr>"
  have g: "process_payment ex_payment_env_real ex_card_details = Inr ?resp"
    by (simp add: process_payment_def real_process_payment_def ex_payment_env_real_def)
  have f: "\<not> gw_success ?resp" by simp
  note c = create_payment_failure(2) [OF ex_credit_card ex_payment_accepted(2) g f, of 105]
  show ?thesis
    unfolding c using g
    by (simp add: ex_empty_payment_state_def payment_rows)
qed

lemma ex_mock_raises:
  "process_payment ex_payment_env ex_numeric_card_details = Inl (AttributeError ''endswith'')"
  by (simp add: process_payment_def mock_process_payment_def ex_payment_env_def
        ex_numeric_card_details_def dict_get_def)

text \<open>
  C8. \<open>create_payment\<close> does not record an attempt for every gateway call. With the mock
  gateway (the default of \<open>USE_MOCK_PAYMENT_GATEWAY\<close>), the valid payment method
  \<open>credit_card\<close> and the payment details \<open>{"card_number": 4000000000000000}\<close>, a number
  where the gateway expects a string, the gateway call raises; \<open>create_payment\<close> does not
  catch the exception, so the call ends with the payment stored as PROCESSING without a
  status message, with no attempt recorded and nothing published, where the claim calls
  for FAILED, a status message, one attempt with success 0 and a \<open>payment.failed\<close> event.
\<close>

theorem create_payment_gateway_exception_unrecorded:
  "''credit_card'' \<in> set payment_methods \<and>
   use_mock_payment_gateway ex_payment_env \<and>
   process_payment ex_payment_env ex_numeric_card_details = Inl (AttributeError ''endswith'') \<and>
   fst (create_payment ex_payment_env ''alice'' 1 ''INV-1-00000001'' 105 ''credit_card''
          ex_numeric_card_details None ex_empty_payment_state)
     = Inl (AttributeError ''endswith'') \<and>
   map pay_status
     (payments (snd (create_payment ex_payment_env ''alice'' 1 ''INV-1-00000001'' 105
                       ''credit_card'' ex_numeric_card_details None ex_empty_payment_state)))
     = [PROCESSING] \<and>
   map status_message
     (payments (snd (create_payment ex_payment_env ''alice'' 1 ''INV-1-00000001'' 105
                       ''credit_card'' ex_numeric_card_details None ex_empty_payment_state)))
     = [None] \<and>
   attempts (snd (create_payment ex_payment_env ''alice'' 1 ''INV-1-00000001'' 105
                    ''credit_card'' ex_numeric_card_details None ex_empty_payment_state))
     = [] \<and>
   sent (pay_publisher
      (snd (create_payment ex_payment_env ''alice'' 1 ''INV-1-00000001'' 105
              ''credit_card'' ex_numeric_card_details None ex_empty_payment_state)))
     = []"
proof -
  note c = create_payment_gateway_raises
             [OF ex_credit_card ex_payment_accepted(1) ex_mock_raises, of 105]
  have m: "use_mock_payment_gateway ex_payment_env"
    by (simp add: ex_payment_env_def)
  show ?thesis
    unfolding c using ex_credit_card m ex_mock_raises
    by (simp add: ex_empty_payment_state_def ex_publisher_def payment_rows)
qed

subsection \<open>Discounts\<close>













text \<open>
  Without a user id or without a correlation id (the defaults of both arguments) a
  positive discount cannot be recorded: the INSERT violates NOT NULL, and
  \<open>apply_discount\<close> raises with nothing stored and nothing published.
\<close>

lemma apply_discount_rejected:
  "v_discount_amount (discount_vars_of (now env) st amount cc uid) > 0 \<Longrightarrow>
   uid = None \<or> cid = None \<Longrightarrow>
   \<exists>column. apply_discount env amount cc uid cid st = (Inl (IntegrityError column), st)"
  by (auto simp: apply_discount_def Let_def create_discount_application_def
           split: option.splits)







subsection \<open>Tax\<close>

lemma tax_loop_described:
  "\<forall>r\<in>set rules. tr_description r \<noteq> None \<Longrightarrow>
   \<exists>new. tax_loop amount rules acc applied
           = Inr (acc + (\<Sum>r\<leftarrow>rules. amount * tr_rate r), applied @ new) \<and>
         map trs_name new = map tr_name rules \<and>
         map trs_rate new = map tr_rate rules \<and>
         map (\<lambda>s. Some (trs_description s)) new = map tr_description rules"
proof (induction rules arbitrary: acc applied)
  case Nil
  then show ?case by simp
next
  case (Cons r rs)
  from Cons.prems obtain d where d: "tr_description r = Some d" by auto
  let ?s = "\<lparr> trs_name = tr_name r, trs_description = d, trs_rate = tr_rate r \<rparr>"
  from Cons.prems have "\<forall>r\<in>set rs. tr_description r \<noteq> None" by simp
  from Cons.IH [OF this, of "acc + amount * tr_rate r" "applied @ [?s]"]
  obtain new where n:
    "tax_loop amount rs (acc + amount * tr_rate r) (applied @ [?s])
       = Inr (acc + amount * tr_rate r + (\<Sum>r\<leftarrow>rs. amount * tr_rate r), (applied @ [?s]) @ new)"
    "map trs_name new = map tr_name rs" "map trs_rate new = map tr_rate rs"
    "map (\<lambda>s. Some (trs_description s)) new = map tr_description rs"
    by blast
  show ?case
    apply (rule exI [of _ "?s # new"])
    using n d by (simp add: make_tax_rule_schema_def Let_def add.assoc)
qed

lemma tax_loop_undescribed:
  "\<exists>r\<in>set rules. tr_description r = None \<Longrightarrow>
   tax_loop amount rules acc applied = Inl (ValidationError ''description'')"
proof (induction rules arbitrary: acc applied)
  case Nil
  then show ?case by simp
next
  case (Cons r rs)
  show ?case
  proof (cases "tr_description r")
    case None
    then show ?thesis by (simp add: make_tax_rule_schema_def)
  next
    case (Some d)
    with Cons.prems have "\<exists>r\<in>set rs. tr_description r = None" by auto
    from Cons.IH [OF this] Some show ?thesis
      by (simp add: make_tax_rule_schema_def Let_def)
  qed
qed

text \<open>
  The rules \<open>calculate_tax\<close> applies: the rules of the product type, or the first rule
  named "default" when there is none, or no rule at all.
\<close>

lemma applicable_rules_cases:
  "applicable_rules st pt =
     (if filter (\<lambda>r. tr_product_type r = pt) (tax_rules st) \<noteq> []
      then filter (\<lambda>r. tr_product_type r = pt) (tax_rules st)
      else (case find (\<lambda>r. tr_name r = ''default'') (tax_rules st) of
              None \<Rightarrow> [] | Some r \<Rightarrow> [r]))"
  by (simp add: applicable_rules_def get_tax_rules_by_product_type_def
        get_default_tax_rule_def Let_def split: option.splits)

text \<open>
  When every applicable rule has a description, \<open>calculate_tax\<close> returns the sum of
  rate times amount over the applicable rules, and hands \<open>tax_calculated\<close> to the
  publisher.
\<close>

lemma calculate_tax_described:
  assumes "\<forall>r\<in>set (applicable_rules st pt). tr_description r \<noteq> None"
  shows "\<exists>resp data.
           fst (calculate_tax env amount pt uid cid st) = Inr resp \<and>
           tax_tax_amount resp = (\<Sum>r\<leftarrow>applicable_rules st pt. amount * tr_rate r) \<and>
           tax_total_amount resp = amount + tax_tax_amount resp \<and>
           map trs_name (tax_rules_applied resp) = map tr_name (applicable_rules st pt) \<and>
           map trs_rate (tax_rules_applied resp) = map tr_rate (applicable_rules st pt) \<and>
           tax_publisher (snd (calculate_tax env amount pt uid cid st))
             = snd (publish_tax_calculated env data (Some cid) (tax_publisher st))"
proof -
  from tax_loop_described [OF assms, of amount 0 "[]"]
  obtain new where n:
    "tax_loop amount (applicable_rules st pt) 0 []
       = Inr ((\<Sum>r\<leftarrow>applicable_rules st pt. amount * tr_rate r), new)"
    "map trs_name new = map tr_name (applicable_rules st pt)"
    "map trs_rate new = map tr_rate (applicable_rules st pt)"
    by auto
  show ?thesis
    using n by (auto simp: calculate_tax_def Let_def create_tax_calculation_def)
qed

text \<open>
  With no matching rule and no default rule the tax is 0, the list of applied rules is
  empty, nothing is recorded, and \<open>tax_calculated\<close> is still handed to the publisher.
\<close>

lemma calculate_tax_no_rules:
  assumes "applicable_rules st pt = []"
  shows "fst (calculate_tax env amount pt uid cid st)
           = Inr \<lparr> tax_original_amount = amount, tax_tax_amount = 0, tax_rules_applied = [],
                   tax_total_amount = amount \<rparr>"
    and "calculations (snd (calculate_tax env amount pt uid cid st)) = calculations st"
    and "tax_publisher (snd (calculate_tax env amount pt uid cid st))
           = snd (publish_tax_calculated env
                    [(''tax_amount'', JNum 0), (''rules_applied'', JArr []),
                     (''product_type'', JStr pt), (''original_amount'', JNum (float64 amount)),
                     (''user_id'', JStr uid)]
                    (Some cid) (tax_publisher st))"
  using assms by (simp_all add: calculate_tax_def Let_def float64_def)

text \<open>
  C7. \<open>calculate_tax\<close> does not return the tax for every product type: a matching rule
  whose description column is NULL (the column is nullable) makes the construction of the
  \<open>TaxRule\<close> response object fail, and the call raises instead of returning 10 for the
  amount 100 at the rate 1/10. Nothing is recorded or published.
\<close>

theorem calculate_tax_rejects_rule_without_description:
  "map tr_rate (applicable_rules ex_tax_state ''digital'') = [1 / 10] \<and>
   map tr_description (applicable_rules ex_tax_state ''digital'') = [None] \<and>
   calculate_tax ex_broker 100 ''digital'' ''alice'' ''corr-1'' ex_tax_state
     = (Inl (ValidationError ''description''), ex_tax_state)"
  by (simp add: calculate_tax_def applicable_rules_def get_tax_rules_by_product_type_def
        ex_tax_state_def make_tax_rule_schema_def Let_def)

end
